theory Spec2Isabelle
  imports Complex_Main
begin

section \<open>Numbers\<close>

text \<open>
  The pipeline computes on JavaScript numbers. Sample readings, features and model outputs
  are modelled as reals. One quotient of the pipeline has a divisor that can be zero
  (the retained ratio of \<open>cleanAndValidateData\<close>); JavaScript evaluates \<open>0 / 0\<close> to
  \<open>NaN\<close>, which then absorbs every sum and product it enters and makes every comparison
  false. The values that can carry it have the type \<open>jsnum\<close>.
\<close>

datatype jsnum = Fin real | NaN

fun js_add :: "jsnum \<Rightarrow> jsnum \<Rightarrow> jsnum" where
  "js_add (Fin a) (Fin b) = Fin (a + b)"
| "js_add _ _ = NaN"

fun js_mul :: "jsnum \<Rightarrow> jsnum \<Rightarrow> jsnum" where
  "js_mul (Fin a) (Fin b) = Fin (a * b)"
| "js_mul _ _ = NaN"

text \<open>Division by a length that is a non-zero constant of the code.\<close>

fun js_over :: "jsnum \<Rightarrow> real \<Rightarrow> jsnum" where
  "js_over (Fin a) d = Fin (a / d)"
| "js_over NaN d = NaN"

fun js_le :: "jsnum \<Rightarrow> jsnum \<Rightarrow> bool" where
  "js_le (Fin a) (Fin b) = (a \<le> b)"
| "js_le _ _ = False"

definition clamp01 :: "real \<Rightarrow> real" where
  "clamp01 x = max 0 (min 1 x)"

definition reduce_sum :: "real list \<Rightarrow> real" where
  "reduce_sum vs = foldl (\<lambda>sum val. sum + val) 0 vs"

section \<open>Raw samples and cleaning\<close>

text \<open>
  A raw sample of any of the five kinds carries a timestamp string, a latitude, a longitude
  and the measured quantity of its kind (\<open>soilMoisture\<close>, \<open>temperature\<close>, \<open>fireIndex\<close>,
  \<open>seaLevel\<close>, \<open>meltingRate\<close>), here the field \<open>reading\<close>. A field that is
  \<open>undefined\<close>, \<open>null\<close> or (for the coordinates) \<open>NaN\<close> at run time is \<open>None\<close>.

  The code looks at a parsed \<open>Date\<close> only through \<open>isNaN(date.getTime())\<close> and
  \<open>getFullYear()\<close>, so the platform is a parser that yields the full year of a
  timestamp, or \<open>None\<close> for an invalid date, together with the current year.
\<close>

record sample =
  timestamp :: "string option"
  latitude :: "real option"
  longitude :: "real option"
  reading :: real

record platform =
  parseYear :: "string \<Rightarrow> int option"
  nowYear :: int

text \<open>
  \<open>DataPreprocessor.cleanData\<close>: the filter predicate. \<open>!item.timestamp\<close> holds for a
  missing or empty string, \<open>!item.latitude\<close> for a missing latitude and for the number 0.
\<close>

definition cleanData_keep :: "platform \<Rightarrow> sample \<Rightarrow> bool" where
  "cleanData_keep P item =
     (case (timestamp item, latitude item, longitude item) of
        (Some ts, Some lat, Some lon) \<Rightarrow>
          if ts = [] \<or> lat = 0 \<or> lon = 0 then False
          else if lat < - 90 \<or> lat > 90 then False
          else if lon < - 180 \<or> lon > 180 then False
          else (case parseYear P ts of None \<Rightarrow> False | Some y \<Rightarrow> True)
      | _ \<Rightarrow> False)"

definition cleanData :: "platform \<Rightarrow> sample list \<Rightarrow> sample list" where
  "cleanData P xs = filter (cleanData_keep P) xs"

text \<open>
  \<open>EnhancedDataPreprocessor.cleanAndValidateData\<close>: the same checks, then the year
  distance \<open>Math.abs(now.getFullYear() - dataDate.getFullYear()) > 10\<close>.
\<close>

definition cleanAndValidate_keep :: "platform \<Rightarrow> sample \<Rightarrow> bool" where
  "cleanAndValidate_keep P item =
     (case (timestamp item, latitude item, longitude item) of
        (Some ts, Some lat, Some lon) \<Rightarrow>
          if ts = [] \<or> lat = 0 \<or> lon = 0 then False
          else if lat < - 90 \<or> lat > 90 then False
          else if lon < - 180 \<or> lon > 180 then False
          else (case parseYear P ts of
                  None \<Rightarrow> False
                | Some y \<Rightarrow> if \<bar>nowYear P - y\<bar> > 10 then False else True)
      | _ \<Rightarrow> False)"

record cleaned =
  cleanSamples :: "sample list"
  ratio :: jsnum
  sufficiency :: real

text \<open>
  The result fields are \<open>cleanData\<close>, \<open>quality\<close> and \<open>completeness\<close> in the source;
  they are \<open>cleanSamples\<close>, \<open>ratio\<close> and \<open>sufficiency\<close> here. The quality is
  \<open>cleanData.length / originalCount\<close>: the clean samples are among the given ones, so a
  zero divisor meets a zero dividend and the quotient is \<open>NaN\<close>.
\<close>

definition cleanAndValidateData :: "platform \<Rightarrow> sample list \<Rightarrow> cleaned" where
  "cleanAndValidateData P xs =
     (let originalCount = length xs;
          kept = filter (cleanAndValidate_keep P) xs
      in \<lparr> cleanSamples = kept,
           ratio = (if originalCount = 0 then NaN
                    else Fin (real (length kept) / real originalCount)),
           sufficiency = min 1 (real (length kept) / 50) \<rparr>)"

section \<open>Statistical primitives (FeatureEngineer)\<close>

definition calculateMean :: "real list \<Rightarrow> real" where
  "calculateMean vs = (if length vs > 0 then reduce_sum vs / real (length vs) else 0)"

text \<open>
  \<open>calculateTrend\<close>: the least-squares slope over the indices \<open>0 .. n - 1\<close>. Its divisor
  \<open>n * sumXX - sumX * sumX\<close> is positive from two points on.
\<close>

definition calculateTrend :: "real list \<Rightarrow> real" where
  "calculateTrend vs =
     (if length vs < 2 then 0
      else let n = real (length vs);
               x = map real [0 ..< length vs];
               sumX = reduce_sum x;
               sumY = reduce_sum vs;
               sumXY = reduce_sum (map (\<lambda>(xi, yi). xi * yi) (zip x vs));
               sumXX = reduce_sum (map (\<lambda>xi. xi * xi) x)
           in (n * sumXY - sumX * sumY) / (n * sumXX - sumX * sumX))"

definition calculateVolatility :: "real list \<Rightarrow> real" where
  "calculateVolatility vs =
     (if length vs < 2 then 0
      else let mean = calculateMean vs;
               variance = reduce_sum (map (\<lambda>v. (v - mean) ^ 2) vs) / real (length vs)
           in sqrt variance)"

definition monthValues :: "real list \<Rightarrow> nat \<Rightarrow> real list" where
  "monthValues vs i = map (\<lambda>k. vs ! k) (filter (\<lambda>k. k mod 12 = i) [0 ..< length vs])"

definition calculateSeasonality :: "real list \<Rightarrow> real" where
  "calculateSeasonality vs =
     (if length vs < 12 then 0
      else let monthlyAverages = map (\<lambda>i. calculateMean (monthValues vs i)) [0 ..< 12]
           in Max (set monthlyAverages) - Min (set monthlyAverages))"

definition calculateExtremeValues :: "real list \<Rightarrow> real" where
  "calculateExtremeValues vs =
     (if length vs = 0 then 0
      else let mean = calculateMean vs;
               std = calculateVolatility vs;
               threshold = mean + 2 * std
           in real (length (filter (\<lambda>v. v > threshold) vs)) / real (length vs))"

definition createTemporalFeatures ::
  "real list \<Rightarrow> real list \<Rightarrow> real list \<Rightarrow> real list \<Rightarrow> real list \<Rightarrow> real list" where
  "createTemporalFeatures soilMoisture temperature fireIndex seaLevel glacierMelting =
     [calculateMean soilMoisture, calculateMean temperature, calculateMean fireIndex,
      calculateMean seaLevel, calculateMean glacierMelting]
     @ [calculateTrend soilMoisture, calculateTrend temperature, calculateTrend fireIndex,
        calculateTrend seaLevel, calculateTrend glacierMelting]
     @ [calculateVolatility soilMoisture, calculateVolatility temperature,
        calculateVolatility fireIndex, calculateVolatility seaLevel,
        calculateVolatility glacierMelting]
     @ [calculateMean soilMoisture * calculateMean temperature,
        calculateMean temperature * calculateMean fireIndex,
        calculateMean soilMoisture * calculateMean seaLevel,
        calculateMean glacierMelting * calculateMean seaLevel]
     @ [calculateSeasonality soilMoisture, calculateSeasonality temperature,
        calculateSeasonality fireIndex]
     @ [calculateExtremeValues soilMoisture, calculateExtremeValues temperature,
        calculateExtremeValues fireIndex]"

section \<open>Enhanced preprocessor (EnhancedDataPreprocessor)\<close>

text \<open>
  \<open>EnhancedProcessedFeatures\<close>. The fields \<open>quality\<close> and \<open>completeness\<close> of the source
  are \<open>enh_quality\<close> and \<open>enh_completeness\<close> here.
\<close>

record EnhancedProcessedFeatures =
  basicFeatures :: "real list"
  temporalFeatures :: "real list"
  volatilityFeatures :: "real list"
  interactionFeatures :: "real list"
  seasonalFeatures :: "real list"
  extremeFeatures :: "real list"
  allFeatures :: "real list"
  enh_quality :: jsnum
  enh_completeness :: real
  dataRichness :: real

definition slice :: "nat \<Rightarrow> nat \<Rightarrow> 'a list \<Rightarrow> 'a list" where
  "slice i j xs = take (j - i) (drop i xs)"

definition aggregateDataWithTimeSeries ::
  "platform \<Rightarrow> sample list \<Rightarrow> sample list \<Rightarrow> sample list \<Rightarrow> sample list \<Rightarrow> sample list
     \<Rightarrow> EnhancedProcessedFeatures" where
  "aggregateDataWithTimeSeries P soil temp fire sea glacier =
     (let sm = cleanAndValidateData P soil;
          tm = cleanAndValidateData P temp;
          fi = cleanAndValidateData P fire;
          sl = cleanAndValidateData P sea;
          gm = cleanAndValidateData P glacier;
          soilMoistureTS = map reading (cleanSamples sm);
          temperatureTS = map reading (cleanSamples tm);
          fireIndexTS = map reading (cleanSamples fi);
          seaLevelTS = map reading (cleanSamples sl);
          glacierMeltingTS = map reading (cleanSamples gm);
          features = createTemporalFeatures soilMoistureTS temperatureTS fireIndexTS
                       seaLevelTS glacierMeltingTS;
          qualities = [ratio sm, ratio tm, ratio fi, ratio sl, ratio gm];
          completenesses = [sufficiency sm, sufficiency tm, sufficiency fi, sufficiency sl,
                            sufficiency gm]
      in \<lparr> basicFeatures = slice 0 5 features,
           temporalFeatures = slice 5 10 features,
           volatilityFeatures = slice 10 15 features,
           interactionFeatures = slice 15 19 features,
           seasonalFeatures = slice 19 22 features,
           extremeFeatures = slice 22 25 features,
           allFeatures = features,
           enh_quality = js_over (foldl js_add (Fin 0) qualities) (real (length qualities)),
           enh_completeness = reduce_sum completenesses / real (length completenesses),
           dataRichness =
             min 1 (real (length soilMoistureTS + length temperatureTS + length fireIndexTS
                          + length seaLevelTS + length glacierMeltingTS) / 250) \<rparr>)"

subsection \<open>Geographic classification\<close>

definition isDesertRegion :: "real \<Rightarrow> real \<Rightarrow> bool" where
  "isDesertRegion lat lon =
     (let saharaDesert = (lat \<ge> 15 \<and> lat \<le> 30 \<and> lon \<ge> - 15 \<and> lon \<le> 40);
          gobiDesert = (lat \<ge> 40 \<and> lat \<le> 50 \<and> lon \<ge> 100 \<and> lon \<le> 120);
          atacamaDesert = (lat \<ge> - 30 \<and> lat \<le> - 20 \<and> lon \<ge> - 80 \<and> lon \<le> - 70);
          kalahariDesert = (lat \<ge> - 30 \<and> lat \<le> - 20 \<and> lon \<ge> 15 \<and> lon \<le> 25);
          australianDesert = (lat \<ge> - 30 \<and> lat \<le> - 20 \<and> lon \<ge> 120 \<and> lon \<le> 140)
      in saharaDesert \<or> gobiDesert \<or> atacamaDesert \<or> kalahariDesert \<or> australianDesert)"

definition isPolarRegion :: "real \<Rightarrow> real \<Rightarrow> bool" where
  "isPolarRegion lat lon =
     (let arctic = (lat > 66.5); antarctic = (lat < - 66.5) in arctic \<or> antarctic)"

definition isCoastalRegion :: "real \<Rightarrow> real \<Rightarrow> bool" where
  "isCoastalRegion lat lon =
     (let westCoastNA = (lon \<ge> - 130 \<and> lon \<le> - 120 \<and> lat \<ge> 30 \<and> lat \<le> 60);
          eastCoastNA = (lon \<ge> - 80 \<and> lon \<le> - 70 \<and> lat \<ge> 25 \<and> lat \<le> 50);
          europeanCoast = (lon \<ge> - 10 \<and> lon \<le> 20 \<and> lat \<ge> 35 \<and> lat \<le> 70);
          eastAsianCoast = (lon \<ge> 120 \<and> lon \<le> 140 \<and> lat \<ge> 20 \<and> lat \<le> 50);
          australianCoast = (lon \<ge> 110 \<and> lon \<le> 155 \<and> lat \<ge> - 40 \<and> lat \<le> - 10)
      in westCoastNA \<or> eastCoastNA \<or> europeanCoast \<or> eastAsianCoast \<or> australianCoast)"

definition isTropicalRegion :: "real \<Rightarrow> real \<Rightarrow> bool" where
  "isTropicalRegion lat lon = (lat \<ge> - 23.5 \<and> lat \<le> 23.5)"

definition isMountainousRegion :: "real \<Rightarrow> real \<Rightarrow> bool" where
  "isMountainousRegion lat lon =
     (let himalayas = (lat \<ge> 25 \<and> lat \<le> 35 \<and> lon \<ge> 70 \<and> lon \<le> 100);
          andes = (lat \<ge> - 20 \<and> lat \<le> 10 \<and> lon \<ge> - 80 \<and> lon \<le> - 70);
          rockies = (lat \<ge> 35 \<and> lat \<le> 60 \<and> lon \<ge> - 120 \<and> lon \<le> - 105);
          alps = (lat \<ge> 43 \<and> lat \<le> 48 \<and> lon \<ge> 5 \<and> lon \<le> 15)
      in himalayas \<or> andes \<or> rockies \<or> alps)"

subsection \<open>Geographic adjustment\<close>

text \<open>
  \<open>adjustForGeographicContextEnhanced\<close> starts with the shallow copy
  \<open>adjustedFeatures = { ...features }\<close>: the copy and the argument hold the same
  \<open>basicFeatures\<close> array. Every statement
  \<open>adjustedFeatures.basicFeatures[i] = Math.min(features.basicFeatures[i], c)\<close> therefore
  reads the entry that the statements before it have written, and the function is a
  sequence of in-place updates of one array. \<open>update_entry\<close> is one such statement;
  \<open>store_entry\<close> is the assignment of a constant. The array has five entries wherever the
  pipeline calls the function (\<open>slice(0, 5)\<close> of the 25 features).
\<close>

definition update_entry :: "nat \<Rightarrow> (real \<Rightarrow> real) \<Rightarrow> real list \<Rightarrow> real list" where
  "update_entry i g a = a[i := g (a ! i)]"

definition store_entry :: "nat \<Rightarrow> real \<Rightarrow> real list \<Rightarrow> real list" where
  "store_entry i c a = a[i := c]"

definition desert_adjust :: "real list \<Rightarrow> real list" where
  "desert_adjust a =
     store_entry 4 0 (store_entry 3 0
       (update_entry 2 (\<lambda>v. max v 0.6)
         (update_entry 1 (\<lambda>v. max v 0.25)
           (update_entry 0 (\<lambda>v. min v 0.15) a))))"

definition polar_adjust :: "real list \<Rightarrow> real list" where
  "polar_adjust a =
     update_entry 4 (\<lambda>v. max v 0.05) (store_entry 3 0
       (update_entry 2 (\<lambda>v. min v 0.3)
         (update_entry 1 (\<lambda>v. min v 0.15)
           (update_entry 0 (\<lambda>v. min v 0.4) a))))"

definition coastal_adjust :: "real list \<Rightarrow> real list" where
  "coastal_adjust a = update_entry 3 (\<lambda>v. max v 0.05) a"

definition tropical_adjust :: "real list \<Rightarrow> real list" where
  "tropical_adjust a =
     update_entry 2 (\<lambda>v. min v 0.6)
       (update_entry 1 (\<lambda>v. max v 0.2)
         (update_entry 0 (\<lambda>v. max v 0.6) a))"

definition mountainous_adjust :: "real list \<Rightarrow> real list" where
  "mountainous_adjust a =
     update_entry 4 (\<lambda>v. max v 0.02) (update_entry 1 (\<lambda>v. min v 0.3) a)"

definition adjust_basic_array :: "real \<Rightarrow> real \<Rightarrow> real list \<Rightarrow> real list" where
  "adjust_basic_array lat lon a0 =
     (let a1 = (if isDesertRegion lat lon then desert_adjust a0 else a0);
          a2 = (if isPolarRegion lat lon then polar_adjust a1 else a1);
          a3 = (if isCoastalRegion lat lon then coastal_adjust a2 else a2);
          a4 = (if isTropicalRegion lat lon then tropical_adjust a3 else a3)
      in if isMountainousRegion lat lon then mountainous_adjust a4 else a4)"

definition adjustForGeographicContextEnhanced ::
  "EnhancedProcessedFeatures \<Rightarrow> real \<Rightarrow> real \<Rightarrow> EnhancedProcessedFeatures" where
  "adjustForGeographicContextEnhanced features lat lon =
     (let adjusted = adjust_basic_array lat lon (basicFeatures features)
      in features \<lparr> basicFeatures := adjusted,
                    allFeatures := adjusted @ temporalFeatures features
                      @ volatilityFeatures features @ interactionFeatures features
                      @ seasonalFeatures features @ extremeFeatures features \<rparr>)"

subsection \<open>Normalization\<close>

definition enhancedNormalizationRanges :: "(string \<times> real \<times> real) list" where
  "enhancedNormalizationRanges =
     [(''soilMoisture'', 0, 100), (''temperature'', - 50, 60), (''fireIndex'', 0, 100),
      (''seaLevel'', 0, 1), (''glacierMelting'', 0, 20),
      (''soilMoistureTrend'', - 10, 10), (''temperatureTrend'', - 5, 5),
      (''fireIndexTrend'', - 20, 20), (''seaLevelTrend'', - 0.1, 0.1),
      (''glacierMeltingTrend'', - 2, 2),
      (''soilMoistureVolatility'', 0, 30), (''temperatureVolatility'', 0, 15),
      (''fireIndexVolatility'', 0, 25), (''seaLevelVolatility'', 0, 0.2),
      (''glacierMeltingVolatility'', 0, 5),
      (''moistureTempInteraction'', 0, 6000), (''tempFireInteraction'', 0, 6000),
      (''moistureSeaInteraction'', 0, 100), (''glacierSeaInteraction'', 0, 20),
      (''soilMoistureSeasonality'', 0, 50), (''temperatureSeasonality'', 0, 30),
      (''fireIndexSeasonality'', 0, 40),
      (''soilMoistureExtreme'', 0, 1), (''temperatureExtreme'', 0, 1),
      (''fireIndexExtreme'', 0, 1)]"

definition featureGroups :: "EnhancedProcessedFeatures \<Rightarrow> (real list \<times> string list) list" where
  "featureGroups f =
     [(basicFeatures f,
        [''soilMoisture'', ''temperature'', ''fireIndex'', ''seaLevel'', ''glacierMelting'']),
      (temporalFeatures f,
        [''soilMoistureTrend'', ''temperatureTrend'', ''fireIndexTrend'', ''seaLevelTrend'',
         ''glacierMeltingTrend'']),
      (volatilityFeatures f,
        [''soilMoistureVolatility'', ''temperatureVolatility'', ''fireIndexVolatility'',
         ''seaLevelVolatility'', ''glacierMeltingVolatility'']),
      (interactionFeatures f,
        [''moistureTempInteraction'', ''tempFireInteraction'', ''moistureSeaInteraction'',
         ''glacierSeaInteraction'']),
      (seasonalFeatures f,
        [''soilMoistureSeasonality'', ''temperatureSeasonality'', ''fireIndexSeasonality'']),
      (extremeFeatures f,
        [''soilMoistureExtreme'', ''temperatureExtreme'', ''fireIndexExtreme''])]"

definition normalize_value :: "real \<Rightarrow> real \<Rightarrow> real \<Rightarrow> real" where
  "normalize_value lo hi feature = max 0 (min 1 ((feature - lo) / (hi - lo)))"

text \<open>
  One pass of the inner \<open>forEach\<close>: a feature whose position has no name, or whose name has
  no range, is skipped; every other one is pushed with its name.
\<close>

definition normalize_group :: "real list \<times> string list \<Rightarrow> (string \<times> real) list" where
  "normalize_group g =
     concat (map (\<lambda>(feature, featureName).
                    case map_of enhancedNormalizationRanges featureName of
                      None \<Rightarrow> []
                    | Some (lo, hi) \<Rightarrow> [(featureName, normalize_value lo hi feature)])
                 (zip (fst g) (snd g)))"

text \<open>
  \<open>EnhancedNormalizedData\<close>, without the per-feature \<open>statistics\<close> (copies of the
  features before scaling). The fields \<open>features\<close>, \<open>quality\<close>, \<open>completeness\<close> and
  \<open>dataRichness\<close> of the source carry the suffix \<open>_en\<close> here.
\<close>

record EnhancedNormalizedData =
  features_en :: "real list"
  quality_en :: jsnum
  completeness_en :: real
  dataRichness_en :: real
  featureNames :: "string list"

definition normalizeFeaturesEnhanced :: "EnhancedProcessedFeatures \<Rightarrow> EnhancedNormalizedData" where
  "normalizeFeaturesEnhanced f =
     (let pushed = concat (map normalize_group (featureGroups f))
      in \<lparr> features_en = map snd pushed,
           quality_en = enh_quality f,
           completeness_en = enh_completeness f,
           dataRichness_en = dataRichness f,
           featureNames = map fst pushed \<rparr>)"

definition processDataForEnhancedML ::
  "platform \<Rightarrow> sample list \<Rightarrow> sample list \<Rightarrow> sample list \<Rightarrow> sample list \<Rightarrow> sample list
     \<Rightarrow> real \<Rightarrow> real \<Rightarrow> EnhancedNormalizedData" where
  "processDataForEnhancedML P soil temp fire sea glacier lat lon =
     normalizeFeaturesEnhanced
       (adjustForGeographicContextEnhanced
          (aggregateDataWithTimeSeries P soil temp fire sea glacier) lat lon)"

section \<open>Basic preprocessor (DataPreprocessor)\<close>

record ProcessedFeatures =
  soilMoisture :: real
  temperature :: real
  fireIndex :: real
  seaLevel :: real
  glacierMelting :: real
  quality :: real
  completeness :: real

text \<open>
  \<open>calculateRobustAverage\<close>. The sort is by the comparator \<open>a - b\<close>, ascending. Both
  quartile indices are below the length of a non-empty array.
\<close>

definition calculateRobustAverage :: "real list \<Rightarrow> real" where
  "calculateRobustAverage vs =
     (if length vs = 0 then 0
      else let sorted = sort vs;
               q1Index = nat \<lfloor>real (length sorted) * 0.25\<rfloor>;
               q3Index = nat \<lfloor>real (length sorted) * 0.75\<rfloor>;
               q1 = sorted ! q1Index;
               q3 = sorted ! q3Index;
               iqr = q3 - q1;
               lowerBound = q1 - 1.5 * iqr;
               upperBound = q3 + 1.5 * iqr;
               filteredValues = filter (\<lambda>v. v \<ge> lowerBound \<and> v \<le> upperBound) vs
           in if length filteredValues > 0
              then reduce_sum filteredValues / real (length filteredValues)
              else reduce_sum vs / real (length vs))"

text \<open>
  \<open>calculateDataQuality\<close>. \<open>Math.max()\<close> of no arguments is \<open>-Infinity\<close>, which is not
  above 0, so the consistency of an empty list of counts is 0.
\<close>

definition calculateDataQuality :: "nat list \<Rightarrow> real" where
  "calculateDataQuality dataCounts =
     (let consistency =
            (case dataCounts of
               [] \<Rightarrow> 0
             | c # cs \<Rightarrow>
                 let maxCount = fold max cs c; minCount = fold min cs c
                 in if maxCount > 0 then real minCount / real maxCount else 0);
          totalPoints = foldl (\<lambda>sum count. sum + count) 0 dataCounts;
          richness = min 1 (real totalPoints / 50)
      in consistency * 0.6 + richness * 0.4)"

text \<open>
  \<open>calculateDataCompleteness\<close> divides by the number of counts, five at its one call.
\<close>

definition calculateDataCompleteness :: "nat list \<Rightarrow> real" where
  "calculateDataCompleteness dataCounts =
     (let expectedCount = 10;
          completenessScores = map (\<lambda>count. min 1 (real count / expectedCount)) dataCounts
      in reduce_sum completenessScores / real (length completenessScores))"

definition aggregateData ::
  "platform \<Rightarrow> sample list \<Rightarrow> sample list \<Rightarrow> sample list \<Rightarrow> sample list \<Rightarrow> sample list
     \<Rightarrow> ProcessedFeatures" where
  "aggregateData P soil temp fire sea glacier =
     (let cleanSoilMoisture = cleanData P soil;
          cleanTemperature = cleanData P temp;
          cleanFireIndex = cleanData P fire;
          cleanSeaLevel = cleanData P sea;
          cleanGlacierMelting = cleanData P glacier;
          counts = [length cleanSoilMoisture, length cleanTemperature, length cleanFireIndex,
                    length cleanSeaLevel, length cleanGlacierMelting]
      in \<lparr> soilMoisture = calculateRobustAverage (map reading cleanSoilMoisture),
           temperature = calculateRobustAverage (map reading cleanTemperature),
           fireIndex = calculateRobustAverage (map reading cleanFireIndex),
           seaLevel = calculateRobustAverage (map reading cleanSeaLevel),
           glacierMelting = calculateRobustAverage (map reading cleanGlacierMelting),
           quality = calculateDataQuality counts,
           completeness = calculateDataCompleteness counts \<rparr>)"

text \<open>
  \<open>adjustForGeographicContext\<close>: the fields are numbers, so the copy shares nothing with
  the argument, and every statement reads the value that came in.
\<close>

definition adjustForGeographicContext ::
  "ProcessedFeatures \<Rightarrow> real \<Rightarrow> real \<Rightarrow> ProcessedFeatures" where
  "adjustForGeographicContext f lat lon =
     (let a1 = (if isDesertRegion lat lon
                then f \<lparr> soilMoisture := min (soilMoisture f) 15,
                         temperature := max (temperature f) 25,
                         fireIndex := max (fireIndex f) 60,
                         seaLevel := 0,
                         glacierMelting := 0 \<rparr>
                else f);
          a2 = (if isPolarRegion lat lon
                then a1 \<lparr> soilMoisture := min (soilMoisture f) 40,
                          temperature := min (temperature f) 15,
                          fireIndex := min (fireIndex f) 30,
                          seaLevel := 0,
                          glacierMelting := max (glacierMelting f) 5 \<rparr>
                else a1)
      in if isCoastalRegion lat lon then a2 \<lparr> seaLevel := max (seaLevel f) 0.05 \<rparr> else a2)"

text \<open>
  \<open>NormalizedData\<close>, without the per-feature \<open>statistics\<close>; its fields carry the suffix
  \<open>_n\<close> here.
\<close>

record NormalizedData =
  features_n :: "real list"
  quality_n :: real
  completeness_n :: real

definition normalizeFeatures :: "ProcessedFeatures \<Rightarrow> NormalizedData" where
  "normalizeFeatures f =
     \<lparr> features_n =
         map (\<lambda>(field, lo, hi). normalize_value lo hi (field f))
           [(soilMoisture, 0, 100), (temperature, - 50, 60), (fireIndex, 0, 100),
            (seaLevel, 0, 1), (glacierMelting, 0, 20)],
       quality_n = quality f,
       completeness_n = completeness f \<rparr>"

definition processDataForML ::
  "platform \<Rightarrow> sample list \<Rightarrow> sample list \<Rightarrow> sample list \<Rightarrow> sample list \<Rightarrow> sample list
     \<Rightarrow> real \<Rightarrow> real \<Rightarrow> NormalizedData" where
  "processDataForML P soil temp fire sea glacier lat lon =
     normalizeFeatures
       (adjustForGeographicContext (aggregateData P soil temp fire sea glacier) lat lon)"

section \<open>Model layer\<close>

text \<open>
  A trained TensorFlow network is a function from a feature vector to the number it
  outputs; its weights come from randomized training and are a parameter here.
\<close>

type_synonym net = "real list \<Rightarrow> real"

record net_pair =
  droughtModel :: net
  floodModel :: net

record ModelPrediction =
  droughtRisk :: real
  floodRisk :: real
  confidence :: real

record EnhancedModelPrediction = ModelPrediction +
  featureImportance :: "real list"
  uncertainty :: real

definition count_positive :: "real list \<Rightarrow> nat" where
  "count_positive features = length (filter (\<lambda>f. f > 0) features)"

definition LinearRegressionModel_predict :: "net_pair \<Rightarrow> real list \<Rightarrow> ModelPrediction" where
  "LinearRegressionModel_predict m features =
     (let conf = 0.6 + (real (count_positive features) / 5) * 0.3
      in \<lparr> droughtRisk = clamp01 (droughtModel m features),
           floodRisk = clamp01 (floodModel m features),
           confidence = min 0.95 conf \<rparr>)"

definition NeuralNetworkModel_predict :: "net_pair \<Rightarrow> real list \<Rightarrow> ModelPrediction" where
  "NeuralNetworkModel_predict m features =
     (let conf = 0.7 + (real (count_positive features) / 5) * 0.25
      in \<lparr> droughtRisk = clamp01 (droughtModel m features),
           floodRisk = clamp01 (floodModel m features),
           confidence = min 0.95 conf \<rparr>)"

text \<open>
  The random forest: \<open>train\<close> always builds 50 trees, so a forest is a first tree and the
  list of the others. A comparison with a feature that is not there is false.
\<close>

datatype tree = Leaf real real | Node nat real tree tree

type_synonym forest = "tree \<times> tree list"

fun predictTree :: "tree \<Rightarrow> real list \<Rightarrow> real \<times> real" where
  "predictTree (Leaf d f) features = (d, f)"
| "predictTree (Node featureIndex threshold left right) features =
     (if featureIndex < length features \<and> features ! featureIndex \<le> threshold
      then predictTree left features
      else predictTree right features)"

definition RandomForestModel_predict :: "forest \<Rightarrow> real list \<Rightarrow> ModelPrediction" where
  "RandomForestModel_predict trees features =
     (let predictions = map (\<lambda>t. predictTree t features) (fst trees # snd trees);
          n = real (length predictions);
          avgDroughtRisk = reduce_sum (map fst predictions) / n;
          avgFloodRisk = reduce_sum (map snd predictions) / n;
          droughtVariance =
            reduce_sum (map (\<lambda>p. (fst p - avgDroughtRisk) ^ 2) predictions) / n;
          floodVariance =
            reduce_sum (map (\<lambda>p. (snd p - avgFloodRisk) ^ 2) predictions) / n;
          conf = 0.65 + (1 - sqrt (droughtVariance + floodVariance)) * 0.3
      in \<lparr> droughtRisk = clamp01 avgDroughtRisk,
           floodRisk = clamp01 avgFloodRisk,
           confidence = min 0.95 conf \<rparr>)"

text \<open>The basic ensemble: the weighted blend of three sub-model predictions.\<close>

definition weight_linear :: real where "weight_linear = 0.2"
definition weight_neural :: real where "weight_neural = 0.5"
definition weight_randomForest :: real where "weight_randomForest = 0.3"

definition EnsembleModel_blend ::
  "ModelPrediction \<Rightarrow> ModelPrediction \<Rightarrow> ModelPrediction \<Rightarrow> ModelPrediction" where
  "EnsembleModel_blend linearPred neuralPred rfPred =
     (let d = droughtRisk linearPred * weight_linear + droughtRisk neuralPred * weight_neural
              + droughtRisk rfPred * weight_randomForest;
          f = floodRisk linearPred * weight_linear + floodRisk neuralPred * weight_neural
              + floodRisk rfPred * weight_randomForest;
          c = confidence linearPred * weight_linear + confidence neuralPred * weight_neural
              + confidence rfPred * weight_randomForest
      in \<lparr> droughtRisk = clamp01 d, floodRisk = clamp01 f, confidence = min 0.95 c \<rparr>)"

record ensemble_parts =
  linearModel :: net_pair
  neuralModel :: net_pair
  randomForestModel :: forest

definition EnsembleModel_predict :: "ensemble_parts \<Rightarrow> real list \<Rightarrow> ModelPrediction" where
  "EnsembleModel_predict m features =
     EnsembleModel_blend (LinearRegressionModel_predict (linearModel m) features)
       (NeuralNetworkModel_predict (neuralModel m) features)
       (RandomForestModel_predict (randomForestModel m) features)"

text \<open>
  The enhanced neural predictor. Its confidence divides by the number of features, which
  is 25 for every vector the enhanced preprocessor produces.
\<close>

definition calculateFeatureImportance :: "real list \<Rightarrow> real list" where
  "calculateFeatureImportance features =
     map (\<lambda>(feature, index). \<bar>feature\<bar> * (1 / (real index + 1)))
       (zip features [0 ..< length features])"

definition calculateUncertainty :: "real \<Rightarrow> real \<Rightarrow> real" where
  "calculateUncertainty d f = (let spread = \<bar>d - f\<bar> in min 1 (spread * 2))"

definition EnhancedNeuralNetworkModel_predict ::
  "net_pair \<Rightarrow> real list \<Rightarrow> EnhancedModelPrediction" where
  "EnhancedNeuralNetworkModel_predict m features =
     (let d = clamp01 (droughtModel m features);
          f = clamp01 (floodModel m features);
          conf = 0.8 + (real (count_positive features) / real (length features)) * 0.2
      in \<lparr> droughtRisk = d, floodRisk = f, confidence = min 0.95 conf,
           featureImportance = calculateFeatureImportance features,
           uncertainty = calculateUncertainty d f \<rparr>)"

definition EnhancedEnsembleModel_predict ::
  "net_pair \<Rightarrow> real list \<Rightarrow> EnhancedModelPrediction" where
  "EnhancedEnsembleModel_predict m features =
     (let prediction = EnhancedNeuralNetworkModel_predict m features
      in prediction \<lparr> confidence := confidence prediction * 0.95,
                      uncertainty := uncertainty prediction * 1.1 \<rparr>)"

section \<open>Model managers and the orchestrator\<close>

datatype PredictionModel = model_linear | model_neural | model_ensemble | model_random_forest

datatype error = ModelNotFound PredictionModel

record basic_models =
  reg_linear :: net_pair
  reg_neural :: net_pair
  reg_random_forest :: forest
  reg_ensemble :: ensemble_parts

record enhanced_models =
  reg_enhanced_neural :: net_pair
  reg_enhanced_ensemble :: net_pair

fun mlModelsManager_predict ::
  "basic_models \<Rightarrow> PredictionModel \<Rightarrow> real list \<Rightarrow> error + ModelPrediction" where
  "mlModelsManager_predict M model_linear features =
     Inr (LinearRegressionModel_predict (reg_linear M) features)"
| "mlModelsManager_predict M model_neural features =
     Inr (NeuralNetworkModel_predict (reg_neural M) features)"
| "mlModelsManager_predict M model_random_forest features =
     Inr (RandomForestModel_predict (reg_random_forest M) features)"
| "mlModelsManager_predict M model_ensemble features =
     Inr (EnsembleModel_predict (reg_ensemble M) features)"

fun enhancedMLModelsManager_predict ::
  "enhanced_models \<Rightarrow> PredictionModel \<Rightarrow> real list \<Rightarrow> error + EnhancedModelPrediction" where
  "enhancedMLModelsManager_predict M model_neural features =
     Inr (EnhancedNeuralNetworkModel_predict (reg_enhanced_neural M) features)"
| "enhancedMLModelsManager_predict M model_ensemble features =
     Inr (EnhancedEnsembleModel_predict (reg_enhanced_ensemble M) features)"
| "enhancedMLModelsManager_predict M other features = Inl (ModelNotFound other)"

datatype risk_level = level_low | level_medium | level_high | level_extreme

definition getRiskLevel :: "real \<Rightarrow> risk_level" where
  "getRiskLevel probability =
     (if probability < 0.25 then level_low
      else if probability < 0.5 then level_medium
      else if probability < 0.75 then level_high
      else level_extreme)"

fun level_rank :: "risk_level \<Rightarrow> nat" where
  "level_rank level_low = 0"
| "level_rank level_medium = 1"
| "level_rank level_high = 2"
| "level_rank level_extreme = 3"

text \<open>
  The result of a prediction: the two risk entries and the model. The identifier, the
  time stamp, the location, the feature toggles and the displayed data points of the
  source's \<open>PredictionResult\<close> play no part in what follows.
\<close>

record risk_entry =
  level :: risk_level
  probability :: real
  entry_confidence :: jsnum

record PredictionResult =
  result_droughtRisk :: risk_entry
  result_floodRisk :: risk_entry
  result_model :: PredictionModel

record request =
  req_soilMoisture :: "sample list"
  req_temperature :: "sample list"
  req_fireIndex :: "sample list"
  req_seaLevel :: "sample list"
  req_glacierMelting :: "sample list"
  req_model :: PredictionModel
  req_latitude :: real
  req_longitude :: real

definition enhanced_result ::
  "PredictionModel \<Rightarrow> EnhancedModelPrediction \<Rightarrow> EnhancedNormalizedData \<Rightarrow> PredictionResult" where
  "enhanced_result m pred processed =
     (let conf = js_mul (js_mul (Fin (confidence pred)) (quality_en processed))
                   (Fin (dataRichness_en processed))
      in \<lparr> result_droughtRisk =
             \<lparr> level = getRiskLevel (droughtRisk pred), probability = droughtRisk pred,
               entry_confidence = conf \<rparr>,
           result_floodRisk =
             \<lparr> level = getRiskLevel (floodRisk pred), probability = floodRisk pred,
               entry_confidence = conf \<rparr>,
           result_model = m \<rparr>)"

definition basic_result ::
  "PredictionModel \<Rightarrow> ModelPrediction \<Rightarrow> NormalizedData \<Rightarrow> PredictionResult" where
  "basic_result m pred processed =
     (let conf = Fin (confidence pred * quality_n processed)
      in \<lparr> result_droughtRisk =
             \<lparr> level = getRiskLevel (droughtRisk pred), probability = droughtRisk pred,
               entry_confidence = conf \<rparr>,
           result_floodRisk =
             \<lparr> level = getRiskLevel (floodRisk pred), probability = floodRisk pred,
               entry_confidence = conf \<rparr>,
           result_model = m \<rparr>)"

definition runMLPrediction ::
  "platform \<Rightarrow> basic_models \<Rightarrow> enhanced_models \<Rightarrow> request \<Rightarrow> error + PredictionResult" where
  "runMLPrediction P B E r =
     (let useEnhancedModels = (req_model r \<in> set [model_neural, model_ensemble])
      in if useEnhancedModels
         then let processed =
                    processDataForEnhancedML P (req_soilMoisture r) (req_temperature r)
                      (req_fireIndex r) (req_seaLevel r) (req_glacierMelting r)
                      (req_latitude r) (req_longitude r)
              in (case enhancedMLModelsManager_predict E (req_model r) (features_en processed) of
                    Inl e \<Rightarrow> Inl e
                  | Inr pred \<Rightarrow> Inr (enhanced_result (req_model r) pred processed))
         else let processed =
                    processDataForML P (req_soilMoisture r) (req_temperature r)
                      (req_fireIndex r) (req_seaLevel r) (req_glacierMelting r)
                      (req_latitude r) (req_longitude r)
              in (case mlModelsManager_predict B (req_model r) (features_n processed) of
                    Inl e \<Rightarrow> Inl e
                  | Inr pred \<Rightarrow> Inr (basic_result (req_model r) pred processed)))"

section \<open>Reference definitions\<close>


text \<open>
  The quality score as the specification words it, on the list of the clean counts of the
  signals: 0.6 times the consistency (least count over greatest count, 0 when the greatest
  is 0) plus 0.4 times the richness, which is the total over 50 capped at 1 in the basic
  variant and the mean of the per-signal completeness scores (count over 10, capped at 1)
  in the enhanced variant.
\<close>

definition consistency_spec :: "nat list \<Rightarrow> real" where
  "consistency_spec cleanCounts =
     (if Max (set cleanCounts) = 0 then 0
      else real (Min (set cleanCounts)) / real (Max (set cleanCounts)))"

definition quality_spec_basic :: "nat list \<Rightarrow> real" where
  "quality_spec_basic cleanCounts =
     0.6 * consistency_spec cleanCounts + 0.4 * min 1 (real (sum_list cleanCounts) / 50)"

definition quality_spec_enhanced :: "nat list \<Rightarrow> real" where
  "quality_spec_enhanced cleanCounts =
     0.6 * consistency_spec cleanCounts
     + 0.4 * (sum_list (map (\<lambda>n. min 1 (real n / 10)) cleanCounts)
              / real (length cleanCounts))"

text \<open>The clean counts of the signals on either path, and the retained ratio of a signal.\<close>

definition cleanCounts_basic :: "platform \<Rightarrow> sample list list \<Rightarrow> nat list" where
  "cleanCounts_basic P signals = map (\<lambda>xs. length (cleanData P xs)) signals"

definition cleanCounts_enhanced :: "platform \<Rightarrow> sample list list \<Rightarrow> nat list" where
  "cleanCounts_enhanced P signals =
     map (\<lambda>xs. length (cleanSamples (cleanAndValidateData P xs))) signals"

definition retained_ratio :: "platform \<Rightarrow> sample list \<Rightarrow> real" where
  "retained_ratio P xs =
     real (length (cleanSamples (cleanAndValidateData P xs))) / real (length xs)"

text \<open>
  A tree whose leaves hold risks in the unit interval, as every tree does that
  \<open>createTree\<close> builds from training examples with risks in the unit interval: a leaf
  holds the averages of the risks of its examples.
\<close>

fun leaves_in_unit :: "tree \<Rightarrow> bool" where
  "leaves_in_unit (Leaf d f) = (0 \<le> d \<and> d \<le> 1 \<and> 0 \<le> f \<and> f \<le> 1)"
| "leaves_in_unit (Node i t l r) = (leaves_in_unit l \<and> leaves_in_unit r)"

section \<open>Worked examples\<close>

text \<open>
  A platform for the worked examples: the current year is 2026, two timestamps parse (to
  their years 2024 and 2001), and every other string is an invalid date.
\<close>

definition example_platform :: platform where
  "example_platform =
     \<lparr> parseYear = (\<lambda>s. if s = ''2024-06-01'' then Some 2024
                        else if s = ''2001-06-01'' then Some 2001 else None),
       nowYear = 2026 \<rparr>"

definition reading_at :: "real \<Rightarrow> real \<Rightarrow> real \<Rightarrow> sample" where
  "reading_at lat lon v =
     \<lparr> timestamp = Some ''2024-06-01'', latitude = Some lat, longitude = Some lon,
       reading = v \<rparr>"

definition example_features :: EnhancedProcessedFeatures where
  "example_features =
     \<lparr> basicFeatures = [1, 2, 3, 4, 5],
       temporalFeatures = [6, 7, 8, 9, 10],
       volatilityFeatures = [11, 12, 13, 14, 15],
       interactionFeatures = [16, 17, 18, 19],
       seasonalFeatures = [20, 21, 22],
       extremeFeatures = [23, 24, 25],
       allFeatures = [1, 2, 3, 4, 5, 6, 7, 8, 9, 10, 11, 12, 13, 14, 15, 16, 17, 18, 19,
                      20, 21, 22, 23, 24, 25],
       enh_quality = Fin 1, enh_completeness = 1, dataRichness = 1 \<rparr>"

definition example_nets :: net_pair where
  "example_nets = \<lparr> droughtModel = (\<lambda>features. 0.9), floodModel = (\<lambda>features. 0.1) \<rparr>"

definition agreeing_parts :: ensemble_parts where
  "agreeing_parts =
     \<lparr> linearModel = \<lparr> droughtModel = (\<lambda>features. 0.4), floodModel = (\<lambda>features. 0.7) \<rparr>,
       neuralModel = \<lparr> droughtModel = (\<lambda>features. 0.4), floodModel = (\<lambda>features. 0.7) \<rparr>,
       randomForestModel = (Leaf 0.4 0.7, []) \<rparr>"

definition differing_parts :: ensemble_parts where
  "differing_parts =
     \<lparr> linearModel = \<lparr> droughtModel = (\<lambda>features. 0), floodModel = (\<lambda>features. 1) \<rparr>,
       neuralModel = \<lparr> droughtModel = (\<lambda>features. 1), floodModel = (\<lambda>features. 0) \<rparr>,
       randomForestModel = (Leaf 1 0, []) \<rparr>"

text \<open>
  The shape in which \<open>aggregateDataWithTimeSeries\<close> hands a 25-slot vector on: the six
  groups are the consecutive slices of \<open>allFeatures\<close>.
\<close>

definition sliced :: "EnhancedProcessedFeatures \<Rightarrow> bool" where
  "sliced f =
     (length (allFeatures f) = 25
      \<and> basicFeatures f = slice 0 5 (allFeatures f)
      \<and> temporalFeatures f = slice 5 10 (allFeatures f)
      \<and> volatilityFeatures f = slice 10 15 (allFeatures f)
      \<and> interactionFeatures f = slice 15 19 (allFeatures f)
      \<and> seasonalFeatures f = slice 19 22 (allFeatures f)
      \<and> extremeFeatures f = slice 22 25 (allFeatures f))"

text \<open>The two confidences of a prediction result, or the error of a failed one.\<close>

definition confidences :: "error + PredictionResult \<Rightarrow> error + jsnum \<times> jsnum" where
  "confidences res =
     map_sum id (\<lambda>r. (entry_confidence (result_droughtRisk r),
                       entry_confidence (result_floodRisk r))) res"

definition empty_request :: "PredictionModel \<Rightarrow> real \<Rightarrow> real \<Rightarrow> request" where
  "empty_request m lat lon =
     \<lparr> req_soilMoisture = [], req_temperature = [], req_fireIndex = [], req_seaLevel = [],
       req_glacierMelting = [], req_model = m, req_latitude = lat, req_longitude = lon \<rparr>"

section \<open>Sums and indices\<close>

lemma foldl_add_sum_list: "foldl (\<lambda>s v. s + v) a vs = a + sum_list (vs :: real list)"
  by (induction vs arbitrary: a) simp_all

lemma reduce_sum_sum_list: "reduce_sum vs = sum_list vs"
  by (simp add: reduce_sum_def foldl_add_sum_list)

lemma q1Index_div: "nat \<lfloor>real n / 4\<rfloor> = n div 4"
proof -
  have "real n / 4 = real n / real 4" by simp
  then have "\<lfloor>real n / 4\<rfloor> = int (n div 4)"
    by (simp only: floor_divide_of_nat_eq)
  then show ?thesis by simp
qed

lemma q3Index_div: "nat \<lfloor>real n * 3 / 4\<rfloor> = (3 * n) div 4"
proof -
  have "real n * 3 / 4 = real (3 * n) / real 4" by simp
  then have "\<lfloor>real n * 3 / 4\<rfloor> = int ((3 * n) div 4)"
    by (simp only: floor_divide_of_nat_eq)
  then show ?thesis by simp
qed

text \<open>The two quartile reads of \<open>calculateRobustAverage\<close> stay inside the sorted array.\<close>

lemma quartile_indices_in_range:
  "0 < (n::nat) \<Longrightarrow> nat \<lfloor>real n * 0.25\<rfloor> < n \<and> nat \<lfloor>real n * 0.75\<rfloor> < n"
  using q1Index_div [of n] q3Index_div [of n] by simp

text \<open>
  The divisor of \<open>calculateTrend\<close> is \<open>n * n * (n - 1) * (n + 1) / 12\<close>, positive from
  two points on, so the slope is a quotient of reals.
\<close>

lemma sum_indices: "2 * sum_list (map real [0 ..< n]) = real n * (real n - 1)"
  by (induction n) (simp_all add: algebra_simps)

lemma sum_index_squares:
  "6 * sum_list (map (\<lambda>x. x * x) (map real [0 ..< n])) = (real n - 1) * real n * (2 * real n - 1)"
  by (induction n) (simp_all add: algebra_simps)

lemma trend_divisor_positive:
  assumes "2 \<le> n"
  shows "0 < real n * reduce_sum (map (\<lambda>xi. xi * xi) (map real [0 ..< n]))
             - reduce_sum (map real [0 ..< n]) * reduce_sum (map real [0 ..< n])"
proof -
  define s1 where "s1 = sum_list (map real [0 ..< n])"
  define s2 where "s2 = sum_list (map (\<lambda>x. x * x) (map real [0 ..< n]))"
  have a: "2 * s1 = real n * (real n - 1)" unfolding s1_def by (rule sum_indices)
  have b: "6 * s2 = (real n - 1) * real n * (2 * real n - 1)"
    unfolding s2_def by (rule sum_index_squares)
  have "12 * (real n * s2 - s1 * s1) = 2 * real n * (6 * s2) - 3 * ((2 * s1) * (2 * s1))"
    by (simp add: algebra_simps)
  also have "\<dots> = real n * real n * (real n - 1) * (real n + 1)"
    unfolding a b by (simp add: algebra_simps)
  finally have e: "12 * (real n * s2 - s1 * s1) = real n * real n * (real n - 1) * (real n + 1)" .
  have "0 < real n * real n * (real n - 1) * (real n + 1)" using assms by simp
  with e have "0 < real n * s2 - s1 * s1" by simp
  then show ?thesis by (simp add: reduce_sum_sum_list s1_def s2_def)
qed

section \<open>Unfolding sets\<close>

lemmas stat_defs = calculateMean_def calculateTrend_def calculateVolatility_def
  calculateSeasonality_def calculateExtremeValues_def reduce_sum_def createTemporalFeatures_def

lemmas clean_defs = cleanData_def cleanData_keep_def cleanAndValidateData_def
  cleanAndValidate_keep_def

lemmas example_defs = example_platform_def reading_at_def

lemmas region_defs = isDesertRegion_def isPolarRegion_def isCoastalRegion_def
  isTropicalRegion_def isMountainousRegion_def

lemmas adjust_defs = adjust_basic_array_def
  desert_adjust_def polar_adjust_def coastal_adjust_def tropical_adjust_def
  mountainous_adjust_def update_entry_def store_entry_def

lemmas normalize_defs = normalizeFeaturesEnhanced_def featureGroups_def normalize_group_def
  normalize_value_def enhancedNormalizationRanges_def

section \<open>The robust mean\<close>


section \<open>Risk levels\<close>

text \<open>
  C7. The risk level is a step function of the probability with the thresholds 0.25, 0.5
  and 0.75: below 0.25 it is low, from 0.25 and below 0.5 medium, from 0.5 and below 0.75
  high, from 0.75 on extreme. It never decreases when the probability grows. So 0.2499 is
  low, 0.25 and 0.4999 are medium, 0.5 is high and 0.9 is extreme.
\<close>

theorem getRiskLevel_step_function:
  "(getRiskLevel p = level_low \<longleftrightarrow> p < 0.25)
   \<and> (getRiskLevel p = level_medium \<longleftrightarrow> 0.25 \<le> p \<and> p < 0.5)
   \<and> (getRiskLevel p = level_high \<longleftrightarrow> 0.5 \<le> p \<and> p < 0.75)
   \<and> (getRiskLevel p = level_extreme \<longleftrightarrow> 0.75 \<le> p)
   \<and> (\<forall>q. p \<le> q \<longrightarrow> level_rank (getRiskLevel p) \<le> level_rank (getRiskLevel q))
   \<and> getRiskLevel 0.2499 = level_low
   \<and> getRiskLevel 0.25 = level_medium
   \<and> getRiskLevel 0.4999 = level_medium
   \<and> getRiskLevel 0.5 = level_high
   \<and> getRiskLevel 0.9 = level_extreme"
  by (auto simp: getRiskLevel_def)

theorem getRiskLevel_step_function_witness:
  "(0.3::real) \<le> 0.8 \<and> level_rank (getRiskLevel 0.3) \<le> level_rank (getRiskLevel 0.8)
   \<and> getRiskLevel 0.3 = level_medium"
proof -
  note t = getRiskLevel_step_function [of "0.3"]
  from t have mono:
    "\<forall>q. (0.3::real) \<le> q \<longrightarrow> level_rank (getRiskLevel 0.3) \<le> level_rank (getRiskLevel q)"
    by (elim conjE)
  from t have "getRiskLevel 0.3 = level_medium \<longleftrightarrow> 0.25 \<le> (0.3::real) \<and> (0.3::real) < 0.5"
    by (elim conjE)
  then have med: "getRiskLevel 0.3 = level_medium" by simp
  have le: "(0.3::real) \<le> 0.8" by simp
  from mono le have "level_rank (getRiskLevel 0.3) \<le> level_rank (getRiskLevel 0.8)" by blast
  with le med show ?thesis by simp
qed

section \<open>Cleaning\<close>

text \<open>What the two filters keep.\<close>

lemma cleanData_keep_iff:
  "cleanData_keep P s \<longleftrightarrow>
     (\<exists>ts lat lon. timestamp s = Some ts \<and> latitude s = Some lat \<and> longitude s = Some lon
        \<and> ts \<noteq> [] \<and> lat \<noteq> 0 \<and> lon \<noteq> 0
        \<and> - 90 \<le> lat \<and> lat \<le> 90 \<and> - 180 \<le> lon \<and> lon \<le> 180
        \<and> parseYear P ts \<noteq> None)"
  by (auto simp: cleanData_keep_def split: option.splits)

lemma cleanAndValidate_keep_iff:
  "cleanAndValidate_keep P s \<longleftrightarrow>
     (\<exists>ts lat lon y. timestamp s = Some ts \<and> latitude s = Some lat \<and> longitude s = Some lon
        \<and> ts \<noteq> [] \<and> lat \<noteq> 0 \<and> lon \<noteq> 0
        \<and> - 90 \<le> lat \<and> lat \<le> 90 \<and> - 180 \<le> lon \<and> lon \<le> 180
        \<and> parseYear P ts = Some y \<and> \<bar>nowYear P - y\<bar> \<le> 10)"
  by (auto simp: cleanAndValidate_keep_def split: option.splits)

lemma retained_among_given:
  "length (cleanSamples (cleanAndValidateData P xs)) \<le> length xs"
  by (simp add: cleanAndValidateData_def Let_def)

text \<open>
  C4. The cleaning step should keep every sample whose coordinates are in range and whose
  timestamp is valid and recent, latitude 0 and longitude 0 included. The code tests
  \<open>!item.latitude\<close> and \<open>!item.longitude\<close> for a missing coordinate, and the number 0 passes
  that test too: both variants drop every sample on the equator or on the prime meridian,
  whatever its other fields. The sample at latitude 0, longitude 10 with a timestamp of 2024
  is dropped, and the same sample at latitude 20 is kept.
\<close>

theorem cleaning_drops_zero_coordinates:
  "\<not> cleanData_keep P (s \<lparr> latitude := Some 0 \<rparr>)
   \<and> \<not> cleanData_keep P (s \<lparr> longitude := Some 0 \<rparr>)
   \<and> \<not> cleanAndValidate_keep P (s \<lparr> latitude := Some 0 \<rparr>)
   \<and> \<not> cleanAndValidate_keep P (s \<lparr> longitude := Some 0 \<rparr>)
   \<and> cleanData example_platform [reading_at 0 10 50] = []
   \<and> cleanSamples (cleanAndValidateData example_platform [reading_at 0 10 50]) = []
   \<and> cleanData example_platform [reading_at 20 10 50] = [reading_at 20 10 50]"
proof (intro conjI)
  show "\<not> cleanData_keep P (s \<lparr> latitude := Some 0 \<rparr>)"
    by (auto simp: cleanData_keep_def split: option.splits)
  show "\<not> cleanData_keep P (s \<lparr> longitude := Some 0 \<rparr>)"
    by (auto simp: cleanData_keep_def split: option.splits)
  show "\<not> cleanAndValidate_keep P (s \<lparr> latitude := Some 0 \<rparr>)"
    by (auto simp: cleanAndValidate_keep_def split: option.splits)
  show "\<not> cleanAndValidate_keep P (s \<lparr> longitude := Some 0 \<rparr>)"
    by (auto simp: cleanAndValidate_keep_def split: option.splits)
  show "cleanData example_platform [reading_at 0 10 50] = []"
    by (simp add: clean_defs example_defs)
  show "cleanSamples (cleanAndValidateData example_platform [reading_at 0 10 50]) = []"
    by (simp add: clean_defs example_defs)
  show "cleanData example_platform [reading_at 20 10 50] = [reading_at 20 10 50]"
    by (simp add: clean_defs example_defs)
qed

section \<open>Empty signals\<close>

lemma cleanAndValidateData_Nil:
  "cleanAndValidateData P [] = \<lparr> cleanSamples = [], ratio = NaN, sufficiency = 0 \<rparr>"
  by (simp add: cleanAndValidateData_def)

lemma aggregate_empty:
  "aggregateDataWithTimeSeries P [] [] [] [] [] =
     \<lparr> basicFeatures = [0, 0, 0, 0, 0], temporalFeatures = [0, 0, 0, 0, 0],
       volatilityFeatures = [0, 0, 0, 0, 0], interactionFeatures = [0, 0, 0, 0],
       seasonalFeatures = [0, 0, 0], extremeFeatures = [0, 0, 0],
       allFeatures = replicate 25 0,
       enh_quality = NaN, enh_completeness = 0, dataRichness = 0 \<rparr>"
  by (simp add: aggregateDataWithTimeSeries_def cleanAndValidateData_Nil stat_defs slice_def
      Let_def numeral_eq_Suc)

text \<open>
  C3. With all five sample arrays empty no step fails, and the five level features are 0 on
  both paths before the geographic adjustment. The basic path has quality 0 and final
  confidence 0. The enhanced path divides the number of clean samples by the number of
  given samples for each signal, which is \<open>0 / 0\<close> here: its quality is \<open>NaN\<close>, not a
  number at or near 0, and so are both confidences of the prediction, for the neural and
  for the ensemble model.
\<close>

theorem empty_signals_quality:
  "aggregateData P [] [] [] [] [] =
     \<lparr> soilMoisture = 0, temperature = 0, fireIndex = 0, seaLevel = 0, glacierMelting = 0,
       quality = 0, completeness = 0 \<rparr>
   \<and> basicFeatures (aggregateDataWithTimeSeries P [] [] [] [] []) = [0, 0, 0, 0, 0]
   \<and> enh_quality (aggregateDataWithTimeSeries P [] [] [] [] []) = NaN
   \<and> quality_en (processDataForEnhancedML P [] [] [] [] [] lat lon) = NaN
   \<and> confidences (runMLPrediction P B E (empty_request model_neural lat lon)) = Inr (NaN, NaN)
   \<and> confidences (runMLPrediction P B E (empty_request model_ensemble lat lon)) = Inr (NaN, NaN)
   \<and> confidences (runMLPrediction P B E (empty_request model_linear lat lon)) = Inr (Fin 0, Fin 0)
   \<and> confidences (runMLPrediction P B E (empty_request model_random_forest lat lon))
       = Inr (Fin 0, Fin 0)"
proof (intro conjI)
  show b: "aggregateData P [] [] [] [] [] =
     \<lparr> soilMoisture = 0, temperature = 0, fireIndex = 0, seaLevel = 0, glacierMelting = 0,
       quality = 0, completeness = 0 \<rparr>"
    by (simp add: aggregateData_def cleanData_def calculateRobustAverage_def
        calculateDataQuality_def calculateDataCompleteness_def reduce_sum_def Let_def)
  show "basicFeatures (aggregateDataWithTimeSeries P [] [] [] [] []) = [0, 0, 0, 0, 0]"
    by (simp add: aggregate_empty)
  show "enh_quality (aggregateDataWithTimeSeries P [] [] [] [] []) = NaN"
    by (simp add: aggregate_empty)
  show q: "quality_en (processDataForEnhancedML P [] [] [] [] [] lat lon) = NaN"
    by (simp add: processDataForEnhancedML_def normalizeFeaturesEnhanced_def Let_def
        adjustForGeographicContextEnhanced_def aggregate_empty)
  show "confidences (runMLPrediction P B E (empty_request model_neural lat lon)) = Inr (NaN, NaN)"
    by (simp add: confidences_def runMLPrediction_def empty_request_def enhanced_result_def
        Let_def q)
  show "confidences (runMLPrediction P B E (empty_request model_ensemble lat lon)) = Inr (NaN, NaN)"
    by (simp add: confidences_def runMLPrediction_def empty_request_def enhanced_result_def
        Let_def q)
  have qn: "quality_n (processDataForML P [] [] [] [] [] lat lon) = 0"
    by (simp add: processDataForML_def normalizeFeatures_def adjustForGeographicContext_def
        Let_def b)
  show "confidences (runMLPrediction P B E (empty_request model_linear lat lon)) = Inr (Fin 0, Fin 0)"
    by (simp add: confidences_def runMLPrediction_def empty_request_def basic_result_def
        Let_def qn)
  show "confidences (runMLPrediction P B E (empty_request model_random_forest lat lon))
       = Inr (Fin 0, Fin 0)"
    by (simp add: confidences_def runMLPrediction_def empty_request_def basic_result_def
        Let_def qn)
qed

section \<open>Quality scores\<close>

lemma foldl_add_sum_list_nat: "foldl (\<lambda>s v. s + v) a vs = a + sum_list (vs :: nat list)"
  by (induction vs arbitrary: a) simp_all

lemma calculateDataQuality_spec:
  "calculateDataQuality (c # cs) = quality_spec_basic (c # cs)"
proof -
  have mx: "fold max cs c = Max (set (c # cs))" by (simp only: Max.set_eq_fold)
  have mn: "fold min cs c = Min (set (c # cs))" by (simp only: Min.set_eq_fold)
  have sm: "foldl (\<lambda>s v. s + v) 0 (c # cs) = sum_list (c # cs)"
    by (simp add: foldl_add_sum_list_nat)
  show ?thesis
    unfolding calculateDataQuality_def quality_spec_basic_def consistency_spec_def
      list.case Let_def mx mn sm
    by simp
qed

lemma ratio_nonempty:
  "xs \<noteq> [] \<Longrightarrow> ratio (cleanAndValidateData P xs) = Fin (retained_ratio P xs)"
  by (simp add: cleanAndValidateData_def retained_ratio_def Let_def)

lemma retained_example:
  "retained_ratio example_platform [reading_at 25 10 30] = 1"
  by (simp add: retained_ratio_def clean_defs example_defs)

text \<open>
  C2, as stated, at five signals with one valid sample each: the enhanced preprocessor's
  quality is 1, while 0.6 times the consistency plus 0.4 times the mean of the five
  count-over-10 completeness scores is 0.64.
\<close>

theorem enhanced_quality_counterexample:
  "enh_quality (aggregateDataWithTimeSeries example_platform [reading_at 25 10 30]
        [reading_at 25 10 30] [reading_at 25 10 30] [reading_at 25 10 30] [reading_at 25 10 30])
     = Fin 1
   \<and> quality_spec_enhanced (cleanCounts_enhanced example_platform
        [[reading_at 25 10 30], [reading_at 25 10 30], [reading_at 25 10 30],
         [reading_at 25 10 30], [reading_at 25 10 30]]) = 16 / 25"
proof (intro conjI)
  show "enh_quality (aggregateDataWithTimeSeries example_platform [reading_at 25 10 30]
        [reading_at 25 10 30] [reading_at 25 10 30] [reading_at 25 10 30] [reading_at 25 10 30])
     = Fin 1"
    by (simp add: aggregateDataWithTimeSeries_def Let_def clean_defs example_defs)
  have "cleanCounts_enhanced example_platform
        [[reading_at 25 10 30], [reading_at 25 10 30], [reading_at 25 10 30],
         [reading_at 25 10 30], [reading_at 25 10 30]] = [1, 1, 1, 1, 1]"
    by (simp add: cleanCounts_enhanced_def clean_defs example_defs)
  then show "quality_spec_enhanced (cleanCounts_enhanced example_platform
        [[reading_at 25 10 30], [reading_at 25 10 30], [reading_at 25 10 30],
         [reading_at 25 10 30], [reading_at 25 10 30]]) = 16 / 25"
    by (simp add: quality_spec_enhanced_def consistency_spec_def)
qed

text \<open>
  C2, amended. The quality of the basic preprocessor is 0.6 times the consistency of the
  clean counts (least over greatest, 0 when the greatest is 0) plus 0.4 times the richness,
  the total of the clean counts over 50 capped at 1; the mean of the five count-over-10
  scores capped at 1 is the completeness of the basic preprocessor. The quality of the
  enhanced preprocessor is the mean of the five retained ratios, clean samples over given
  samples, when every signal has a sample; its completeness is the mean of the five
  count-over-50 scores capped at 1.
\<close>

theorem quality_scores:
  "quality (aggregateData P a b c d e) = quality_spec_basic (cleanCounts_basic P [a, b, c, d, e])
   \<and> completeness (aggregateData P a b c d e)
       = sum_list (map (\<lambda>n. min 1 (real n / 10)) (cleanCounts_basic P [a, b, c, d, e])) / 5
   \<and> (a \<noteq> [] \<and> b \<noteq> [] \<and> c \<noteq> [] \<and> d \<noteq> [] \<and> e \<noteq> [] \<longrightarrow>
        enh_quality (aggregateDataWithTimeSeries P a b c d e)
          = Fin ((retained_ratio P a + retained_ratio P b + retained_ratio P c
                  + retained_ratio P d + retained_ratio P e) / 5))
   \<and> enh_completeness (aggregateDataWithTimeSeries P a b c d e)
       = sum_list (map (\<lambda>n. min 1 (real n / 50)) (cleanCounts_enhanced P [a, b, c, d, e])) / 5"
proof (intro conjI impI)
  show "quality (aggregateData P a b c d e)
          = quality_spec_basic (cleanCounts_basic P [a, b, c, d, e])"
    by (simp add: aggregateData_def Let_def cleanCounts_basic_def calculateDataQuality_spec)
  show "completeness (aggregateData P a b c d e)
       = sum_list (map (\<lambda>n. min 1 (real n / 10)) (cleanCounts_basic P [a, b, c, d, e])) / 5"
    by (simp add: aggregateData_def Let_def cleanCounts_basic_def calculateDataCompleteness_def
        reduce_sum_sum_list)
  show "enh_completeness (aggregateDataWithTimeSeries P a b c d e)
       = sum_list (map (\<lambda>n. min 1 (real n / 50)) (cleanCounts_enhanced P [a, b, c, d, e])) / 5"
    by (simp add: aggregateDataWithTimeSeries_def Let_def cleanCounts_enhanced_def
        reduce_sum_sum_list cleanAndValidateData_def)
next
  assume "a \<noteq> [] \<and> b \<noteq> [] \<and> c \<noteq> [] \<and> d \<noteq> [] \<and> e \<noteq> []"
  then show "enh_quality (aggregateDataWithTimeSeries P a b c d e)
          = Fin ((retained_ratio P a + retained_ratio P b + retained_ratio P c
                  + retained_ratio P d + retained_ratio P e) / 5)"
    by (simp add: aggregateDataWithTimeSeries_def Let_def ratio_nonempty)
qed

theorem quality_scores_witness:
  "[reading_at 25 10 30] \<noteq> []
   \<and> enh_quality (aggregateDataWithTimeSeries example_platform [reading_at 25 10 30]
        [reading_at 25 10 30] [reading_at 25 10 30] [reading_at 25 10 30] [reading_at 25 10 30])
       = Fin 1"
proof -
  let ?g = "[reading_at 25 10 30]"
  have ne: "?g \<noteq> [] \<and> ?g \<noteq> [] \<and> ?g \<noteq> [] \<and> ?g \<noteq> [] \<and> ?g \<noteq> []" by simp
  note t = quality_scores [of example_platform ?g ?g ?g ?g ?g]
  from t have "?g \<noteq> [] \<and> ?g \<noteq> [] \<and> ?g \<noteq> [] \<and> ?g \<noteq> [] \<and> ?g \<noteq> [] \<longrightarrow>
        enh_quality (aggregateDataWithTimeSeries example_platform ?g ?g ?g ?g ?g)
          = Fin ((retained_ratio example_platform ?g + retained_ratio example_platform ?g
                  + retained_ratio example_platform ?g + retained_ratio example_platform ?g
                  + retained_ratio example_platform ?g) / 5)"
    by (elim conjE)
  with ne have "enh_quality (aggregateDataWithTimeSeries example_platform ?g ?g ?g ?g ?g)
          = Fin ((retained_ratio example_platform ?g + retained_ratio example_platform ?g
                  + retained_ratio example_platform ?g + retained_ratio example_platform ?g
                  + retained_ratio example_platform ?g) / 5)"
    by (rule rev_mp)
  then show ?thesis by (simp add: retained_example)
qed

section \<open>Confidence\<close>

lemma quality_en_pipeline:
  "quality_en (processDataForEnhancedML P a b c d e lat lon)
     = enh_quality (aggregateDataWithTimeSeries P a b c d e)"
  by (simp add: processDataForEnhancedML_def normalizeFeaturesEnhanced_def Let_def
      adjustForGeographicContextEnhanced_def)

lemma enh_quality_first_empty:
  "enh_quality (aggregateDataWithTimeSeries P [] b c d e) = NaN"
  by (simp add: aggregateDataWithTimeSeries_def cleanAndValidateData_Nil Let_def)

text \<open>
  Where the quality is a number the final confidence is dampened as intended: on the basic
  path always, on the enhanced path when every signal has a sample. A model confidence is
  positive for every predictor (see the ranges below).
\<close>

lemma fold_min_le_fold_max: "fold min cs (c::nat) \<le> fold max cs c"
proof -
  have "Min (set (c # cs)) \<le> c" by (rule Min_le) simp_all
  moreover have "c \<le> Max (set (c # cs))" by (rule Max_ge) simp_all
  ultimately show ?thesis by (simp only: Max.set_eq_fold Min.set_eq_fold)
qed

lemma calculateDataQuality_range:
  "0 \<le> calculateDataQuality cs \<and> calculateDataQuality cs \<le> 1"
proof (cases cs)
  case Nil
  then show ?thesis by (simp add: calculateDataQuality_def Let_def)
next
  case (Cons c cs')
  define k where "k = (if fold max cs' c > 0
                       then real (fold min cs' c) / real (fold max cs' c) else 0)"
  define r where "r = min 1 (real (foldl (\<lambda>sum count. sum + count) 0 (c # cs')) / 50)"
  have k: "0 \<le> k \<and> k \<le> 1"
    using fold_min_le_fold_max [of cs' c] by (simp add: k_def)
  have r: "0 \<le> r \<and> r \<le> 1" by (simp add: r_def)
  have "calculateDataQuality cs = k * 0.6 + r * 0.4"
    by (simp add: calculateDataQuality_def Let_def Cons k_def r_def)
  with k r show ?thesis by simp
qed

lemma basic_quality_range:
  "0 \<le> quality_n (processDataForML P a b c d e lat lon)
   \<and> quality_n (processDataForML P a b c d e lat lon) \<le> 1"
  using calculateDataQuality_range
  by (simp add: processDataForML_def normalizeFeatures_def adjustForGeographicContext_def
      aggregateData_def Let_def)

lemma basic_confidence_dampened:
  assumes "0 < confidence pred"
  shows "entry_confidence (result_droughtRisk
            (basic_result m pred (processDataForML P a b c d e lat lon)))
           = Fin (confidence pred * quality_n (processDataForML P a b c d e lat lon))
    \<and> js_le (entry_confidence (result_droughtRisk
            (basic_result m pred (processDataForML P a b c d e lat lon))))
          (Fin (confidence pred))
    \<and> (entry_confidence (result_droughtRisk
            (basic_result m pred (processDataForML P a b c d e lat lon)))
           = Fin (confidence pred)
        \<longleftrightarrow> quality_n (processDataForML P a b c d e lat lon) = 1)"
proof -
  let ?q = "quality_n (processDataForML P a b c d e lat lon)"
  have q: "0 \<le> ?q \<and> ?q \<le> 1" by (rule basic_quality_range)
  then have "confidence pred * ?q \<le> confidence pred * 1"
    using assms by (intro mult_left_mono) simp_all
  then have le: "confidence pred * ?q \<le> confidence pred" by simp
  have eq: "confidence pred * ?q = confidence pred \<longleftrightarrow> ?q = 1"
    using assms by simp
  show ?thesis using le eq by (simp add: basic_result_def Let_def)
qed

lemma retained_ratio_range:
  "xs \<noteq> [] \<Longrightarrow> 0 \<le> retained_ratio P xs \<and> retained_ratio P xs \<le> 1"
  by (simp add: retained_ratio_def cleanAndValidateData_def Let_def)

lemma dataRichness_range:
  "0 \<le> dataRichness_en (processDataForEnhancedML P a b c d e lat lon)
   \<and> dataRichness_en (processDataForEnhancedML P a b c d e lat lon) \<le> 1"
  by (simp add: processDataForEnhancedML_def normalizeFeaturesEnhanced_def
      adjustForGeographicContextEnhanced_def aggregateDataWithTimeSeries_def Let_def)

lemma unit_product_one:
  fixes q r :: real
  assumes "0 \<le> q" "q \<le> 1" "0 \<le> r" "r \<le> 1"
  shows "q * r = 1 \<longleftrightarrow> q = 1 \<and> r = 1"
proof
  assume h: "q * r = 1"
  have "q * r \<le> q * 1" using assms by (intro mult_left_mono) simp_all
  with h assms have q: "q = 1" by simp
  with h show "q = 1 \<and> r = 1" by simp
next
  assume "q = 1 \<and> r = 1" then show "q * r = 1" by simp
qed

lemma enhanced_confidence_dampened:
  assumes ne: "a \<noteq> []" "b \<noteq> []" "c \<noteq> []" "d \<noteq> []" "e \<noteq> []"
    and pos: "0 < confidence pred"
  shows "\<exists>q. quality_en (processDataForEnhancedML P a b c d e lat lon) = Fin q
    \<and> 0 \<le> q \<and> q \<le> 1
    \<and> entry_confidence (result_droughtRisk
          (enhanced_result m pred (processDataForEnhancedML P a b c d e lat lon)))
        = Fin (confidence pred * q * dataRichness_en (processDataForEnhancedML P a b c d e lat lon))
    \<and> js_le (entry_confidence (result_droughtRisk
          (enhanced_result m pred (processDataForEnhancedML P a b c d e lat lon))))
        (Fin (confidence pred))
    \<and> (entry_confidence (result_droughtRisk
          (enhanced_result m pred (processDataForEnhancedML P a b c d e lat lon)))
          = Fin (confidence pred)
        \<longleftrightarrow> q = 1 \<and> dataRichness_en (processDataForEnhancedML P a b c d e lat lon) = 1)"
proof -
  let ?D = "processDataForEnhancedML P a b c d e lat lon"
  let ?r = "dataRichness_en ?D"
  define q where "q = (retained_ratio P a + retained_ratio P b + retained_ratio P c
                  + retained_ratio P d + retained_ratio P e) / 5"
  have qe: "quality_en ?D = Fin q"
    using ne
    by (simp add: processDataForEnhancedML_def normalizeFeaturesEnhanced_def
        adjustForGeographicContextEnhanced_def aggregateDataWithTimeSeries_def Let_def
        ratio_nonempty q_def)
  have q: "0 \<le> q \<and> q \<le> 1"
    using retained_ratio_range [OF ne(1), of P] retained_ratio_range [OF ne(2), of P]
      retained_ratio_range [OF ne(3), of P] retained_ratio_range [OF ne(4), of P]
      retained_ratio_range [OF ne(5), of P]
    by (simp add: q_def)
  have r: "0 \<le> ?r \<and> ?r \<le> 1" by (rule dataRichness_range)
  have qr: "0 \<le> q * ?r \<and> q * ?r \<le> 1"
    using q r by (simp add: mult_le_one)
  have c: "entry_confidence (result_droughtRisk (enhanced_result m pred ?D))
        = Fin (confidence pred * q * ?r)"
    by (simp add: enhanced_result_def Let_def qe)
  have "confidence pred * (q * ?r) \<le> confidence pred * 1"
    using pos qr by (intro mult_left_mono) simp_all
  then have le: "confidence pred * q * ?r \<le> confidence pred" by (simp add: mult.assoc)
  have "confidence pred * q * ?r = confidence pred \<longleftrightarrow> q * ?r = 1"
    using pos by (simp add: mult.assoc)
  also have "\<dots> \<longleftrightarrow> q = 1 \<and> ?r = 1"
    using q r by (intro unit_product_one) simp_all
  finally have eq: "confidence pred * q * ?r = confidence pred \<longleftrightarrow> q = 1 \<and> ?r = 1" .
  show ?thesis
    using qe q c le eq by (intro exI [of _ q]) simp
qed

text \<open>
  C5. The final confidence is the model confidence times the quality (times the data
  richness on the enhanced path). On the enhanced path a signal without samples, such as
  a deselected one, makes the quality \<open>NaN\<close>, and then the final confidence is
  \<open>NaN\<close> as well: it is not at most the model confidence, since no comparison with
  \<open>NaN\<close> holds.
\<close>

theorem enhanced_confidence_not_a_number:
  "confidences (runMLPrediction P B E
      \<lparr> req_soilMoisture = [], req_temperature = t, req_fireIndex = f, req_seaLevel = s,
        req_glacierMelting = g, req_model = model_neural, req_latitude = lat,
        req_longitude = lon \<rparr>) = Inr (NaN, NaN)
   \<and> confidences (runMLPrediction P B E
      \<lparr> req_soilMoisture = [], req_temperature = t, req_fireIndex = f, req_seaLevel = s,
        req_glacierMelting = g, req_model = model_ensemble, req_latitude = lat,
        req_longitude = lon \<rparr>) = Inr (NaN, NaN)
   \<and> \<not> js_le NaN (Fin c)"
  by (simp add: confidences_def runMLPrediction_def enhanced_result_def Let_def
      quality_en_pipeline enh_quality_first_empty)

section \<open>Prediction ranges\<close>

text \<open>
  The ranges of the predictors: risks in the unit interval, confidences between the floor
  of the predictor and 0.95, the uncertainty of the enhanced neural predictor in the unit
  interval and that of the enhanced ensemble up to 1.1.
\<close>

lemma count_positive_le: "count_positive fs \<le> length fs"
  by (simp add: count_positive_def)

lemma LinearRegressionModel_range:
  "0 \<le> droughtRisk (LinearRegressionModel_predict m fs)
   \<and> droughtRisk (LinearRegressionModel_predict m fs) \<le> 1
   \<and> 0 \<le> floodRisk (LinearRegressionModel_predict m fs)
   \<and> floodRisk (LinearRegressionModel_predict m fs) \<le> 1
   \<and> 0.6 \<le> confidence (LinearRegressionModel_predict m fs)
   \<and> confidence (LinearRegressionModel_predict m fs) \<le> 0.95"
  by (auto simp: LinearRegressionModel_predict_def Let_def clamp01_def min_def max_def)

lemma NeuralNetworkModel_range:
  "0 \<le> droughtRisk (NeuralNetworkModel_predict m fs)
   \<and> droughtRisk (NeuralNetworkModel_predict m fs) \<le> 1
   \<and> 0 \<le> floodRisk (NeuralNetworkModel_predict m fs)
   \<and> floodRisk (NeuralNetworkModel_predict m fs) \<le> 1
   \<and> 0.7 \<le> confidence (NeuralNetworkModel_predict m fs)
   \<and> confidence (NeuralNetworkModel_predict m fs) \<le> 0.95"
  by (auto simp: NeuralNetworkModel_predict_def Let_def clamp01_def min_def max_def)

lemma calculateUncertainty_range:
  "0 \<le> calculateUncertainty d f \<and> calculateUncertainty d f \<le> 1"
  by (simp add: calculateUncertainty_def Let_def)

lemma EnhancedNeuralNetworkModel_range:
  "0 \<le> droughtRisk (EnhancedNeuralNetworkModel_predict m fs)
   \<and> droughtRisk (EnhancedNeuralNetworkModel_predict m fs) \<le> 1
   \<and> 0 \<le> floodRisk (EnhancedNeuralNetworkModel_predict m fs)
   \<and> floodRisk (EnhancedNeuralNetworkModel_predict m fs) \<le> 1
   \<and> 0.8 \<le> confidence (EnhancedNeuralNetworkModel_predict m fs)
   \<and> confidence (EnhancedNeuralNetworkModel_predict m fs) \<le> 0.95
   \<and> 0 \<le> uncertainty (EnhancedNeuralNetworkModel_predict m fs)
   \<and> uncertainty (EnhancedNeuralNetworkModel_predict m fs) \<le> 1"
proof -
  have "0 \<le> real (count_positive fs) / real (length fs) * 0.2" by simp
  then have c: "0.8 \<le> min 0.95 (0.8 + real (count_positive fs) / real (length fs) * 0.2)
      \<and> min 0.95 (0.8 + real (count_positive fs) / real (length fs) * 0.2) \<le> 0.95"
    by (auto simp: min_def)
  have r: "0 \<le> clamp01 x \<and> clamp01 x \<le> 1" for x by (simp add: clamp01_def)
  show ?thesis
    using c r calculateUncertainty_range
    by (simp add: EnhancedNeuralNetworkModel_predict_def Let_def)
qed

lemma EnhancedEnsembleModel_range:
  "0 \<le> droughtRisk (EnhancedEnsembleModel_predict m fs)
   \<and> droughtRisk (EnhancedEnsembleModel_predict m fs) \<le> 1
   \<and> 0 \<le> floodRisk (EnhancedEnsembleModel_predict m fs)
   \<and> floodRisk (EnhancedEnsembleModel_predict m fs) \<le> 1
   \<and> 0.76 \<le> confidence (EnhancedEnsembleModel_predict m fs)
   \<and> confidence (EnhancedEnsembleModel_predict m fs) \<le> 0.9025
   \<and> 0 \<le> uncertainty (EnhancedEnsembleModel_predict m fs)
   \<and> uncertainty (EnhancedEnsembleModel_predict m fs) \<le> 1.1"
  using EnhancedNeuralNetworkModel_range [of m fs]
  by (simp add: EnhancedEnsembleModel_predict_def Let_def)

lemma EnhancedEnsembleModel_uncertainty:
  "uncertainty (EnhancedEnsembleModel_predict m fs)
     = min 1 (\<bar>clamp01 (droughtModel m fs) - clamp01 (floodModel m fs)\<bar> * 2) * 1.1"
  by (simp add: EnhancedEnsembleModel_predict_def EnhancedNeuralNetworkModel_predict_def
      calculateUncertainty_def Let_def)

lemma predictTree_in_unit:
  "leaves_in_unit t \<Longrightarrow>
     0 \<le> fst (predictTree t fs) \<and> fst (predictTree t fs) \<le> 1
     \<and> 0 \<le> snd (predictTree t fs) \<and> snd (predictTree t fs) \<le> 1"
  by (induction t) simp_all

lemma sum_list_unit:
  "\<forall>x \<in> set xs. 0 \<le> x \<and> x \<le> (1::real) \<Longrightarrow> 0 \<le> sum_list xs \<and> sum_list xs \<le> real (length xs)"
  by (induction xs) auto

lemma mean_unit:
  assumes "xs \<noteq> []" "\<forall>x \<in> set xs. 0 \<le> x \<and> x \<le> (1::real)"
  shows "0 \<le> sum_list xs / real (length xs) \<and> sum_list xs / real (length xs) \<le> 1"
  using sum_list_unit [OF assms(2)] assms(1) by (simp add: divide_le_eq)

lemma square_deviation_unit:
  fixes x m :: real
  assumes "0 \<le> x" "x \<le> 1" "0 \<le> m" "m \<le> 1"
  shows "0 \<le> (x - m)\<^sup>2 \<and> (x - m)\<^sup>2 \<le> 1"
proof -
  have "\<bar>x - m\<bar> \<le> 1" using assms by simp
  then have "(x - m)\<^sup>2 \<le> 1\<^sup>2" by (metis abs_le_square_iff abs_one)
  then show ?thesis by simp
qed

lemma RandomForestModel_range:
  assumes "leaves_in_unit (fst T)" "\<forall>t \<in> set (snd T). leaves_in_unit t"
  shows "0 \<le> droughtRisk (RandomForestModel_predict T fs)
    \<and> droughtRisk (RandomForestModel_predict T fs) \<le> 1
    \<and> 0 \<le> floodRisk (RandomForestModel_predict T fs)
    \<and> floodRisk (RandomForestModel_predict T fs) \<le> 1
    \<and> 0.5 \<le> confidence (RandomForestModel_predict T fs)
    \<and> confidence (RandomForestModel_predict T fs) \<le> 0.95"
proof -
  define ps where "ps = map (\<lambda>t. predictTree t fs) (fst T # snd T)"
  define n where "n = real (length ps)"
  define ad where "ad = sum_list (map fst ps) / n"
  define af where "af = sum_list (map snd ps) / n"
  define dv where "dv = sum_list (map (\<lambda>p. (fst p - ad)\<^sup>2) ps) / n"
  define fv where "fv = sum_list (map (\<lambda>p. (snd p - af)\<^sup>2) ps) / n"
  have ne: "ps \<noteq> []" by (simp add: ps_def)
  have u: "\<forall>p \<in> set ps. 0 \<le> fst p \<and> fst p \<le> 1 \<and> 0 \<le> snd p \<and> snd p \<le> 1"
    using assms predictTree_in_unit by (auto simp: ps_def)
  have ad: "0 \<le> ad \<and> ad \<le> 1"
    unfolding ad_def n_def using ne u mean_unit [of "map fst ps"] by simp
  have af: "0 \<le> af \<and> af \<le> 1"
    unfolding af_def n_def using ne u mean_unit [of "map snd ps"] by simp
  have "\<forall>x \<in> set (map (\<lambda>p. (fst p - ad)\<^sup>2) ps). 0 \<le> x \<and> x \<le> 1"
    using u ad square_deviation_unit by auto
  with ne have dv: "0 \<le> dv \<and> dv \<le> 1"
    unfolding dv_def n_def using mean_unit [of "map (\<lambda>p. (fst p - ad)\<^sup>2) ps"] by simp
  have "\<forall>x \<in> set (map (\<lambda>p. (snd p - af)\<^sup>2) ps). 0 \<le> x \<and> x \<le> 1"
    using u af square_deviation_unit by auto
  with ne have fv: "0 \<le> fv \<and> fv \<le> 1"
    unfolding fv_def n_def using mean_unit [of "map (\<lambda>p. (snd p - af)\<^sup>2) ps"] by simp
  have "dv + fv \<le> (3 / 2)\<^sup>2" using dv fv by (simp add: power2_eq_square)
  then have s: "sqrt (dv + fv) \<le> 3 / 2" by (rule real_le_lsqrt[rotated 1]) simp
  have c: "confidence (RandomForestModel_predict T fs)
             = min 0.95 (0.65 + (1 - sqrt (dv + fv)) * 0.3)"
    by (simp add: RandomForestModel_predict_def Let_def reduce_sum_sum_list
        dv_def fv_def ad_def af_def n_def ps_def)
  have r: "0 \<le> clamp01 x \<and> clamp01 x \<le> 1" for x by (simp add: clamp01_def)
  define z where "z = sqrt (dv + fv)"
  have "z \<le> 3 / 2" using s by (simp only: z_def)
  then have "0.5 \<le> min 0.95 (0.65 + (1 - z) * 0.3)
        \<and> min 0.95 (0.65 + (1 - z) * 0.3) \<le> 0.95"
    by (auto simp: min_def field_simps)
  then have "0.5 \<le> min 0.95 (0.65 + (1 - sqrt (dv + fv)) * 0.3)
        \<and> min 0.95 (0.65 + (1 - sqrt (dv + fv)) * 0.3) \<le> 0.95"
    by (simp only: z_def)
  with c r show ?thesis
    by (simp add: RandomForestModel_predict_def Let_def)
qed

lemma EnsembleModel_range:
  assumes "leaves_in_unit (fst (randomForestModel m))"
    "\<forall>t \<in> set (snd (randomForestModel m)). leaves_in_unit t"
  shows "0 \<le> droughtRisk (EnsembleModel_predict m fs)
    \<and> droughtRisk (EnsembleModel_predict m fs) \<le> 1
    \<and> 0 \<le> floodRisk (EnsembleModel_predict m fs)
    \<and> floodRisk (EnsembleModel_predict m fs) \<le> 1
    \<and> 0.62 \<le> confidence (EnsembleModel_predict m fs)
    \<and> confidence (EnsembleModel_predict m fs) \<le> 0.95"
proof -
  define cl where "cl = confidence (LinearRegressionModel_predict (linearModel m) fs)"
  define cn where "cn = confidence (NeuralNetworkModel_predict (neuralModel m) fs)"
  define cr where "cr = confidence (RandomForestModel_predict (randomForestModel m) fs)"
  have l: "0.6 \<le> cl" unfolding cl_def using LinearRegressionModel_range by blast
  have n: "0.7 \<le> cn" unfolding cn_def using NeuralNetworkModel_range by blast
  have r: "0.5 \<le> cr" unfolding cr_def using RandomForestModel_range [OF assms] by blast
  have c: "confidence (EnsembleModel_predict m fs)
             = min 0.95 (cl * weight_linear + cn * weight_neural + cr * weight_randomForest)"
    by (simp add: EnsembleModel_predict_def EnsembleModel_blend_def Let_def cl_def cn_def cr_def)
  have "0.62 \<le> cl * 0.2 + cn * 0.5 + cr * 0.3" using l n r by (simp add: field_simps)
  then have b: "0.62 \<le> min 0.95 (cl * weight_linear + cn * weight_neural + cr * weight_randomForest)
      \<and> min 0.95 (cl * weight_linear + cn * weight_neural + cr * weight_randomForest) \<le> 0.95"
    by (auto simp: weight_linear_def weight_neural_def weight_randomForest_def min_def
        field_simps)
  have u: "0 \<le> clamp01 x \<and> clamp01 x \<le> 1" for x by (simp add: clamp01_def)
  show ?thesis
    using b u by (simp add: c) (simp add: EnsembleModel_predict_def EnsembleModel_blend_def Let_def)
qed

text \<open>
  C6. The uncertainty of the enhanced ensemble is the uncertainty of the enhanced neural
  predictor, which is capped at 1, times 1.1 with no cap after it. When the two networks
  put out 0.9 and 0.1 the neural uncertainty is 1 and the ensemble uncertainty is 1.1,
  above 1; the two risks stay in the unit interval.
\<close>

theorem enhanced_ensemble_uncertainty_exceeds_one:
  "uncertainty (EnhancedEnsembleModel_predict example_nets features) = 1.1
   \<and> \<not> uncertainty (EnhancedEnsembleModel_predict example_nets features) \<le> 1
   \<and> uncertainty (EnhancedNeuralNetworkModel_predict example_nets features) = 1
   \<and> droughtRisk (EnhancedEnsembleModel_predict example_nets features) = 0.9
   \<and> floodRisk (EnhancedEnsembleModel_predict example_nets features) = 0.1"
  by (simp add: EnhancedEnsembleModel_predict_def EnhancedNeuralNetworkModel_predict_def
      example_nets_def calculateUncertainty_def clamp01_def Let_def)

section \<open>The basic ensemble\<close>

lemma clamp01_range: "0 \<le> clamp01 x \<and> clamp01 x \<le> 1"
  by (simp add: clamp01_def)

lemma clamp01_id: "0 \<le> x \<Longrightarrow> x \<le> 1 \<Longrightarrow> clamp01 x = x"
  by (simp add: clamp01_def)

text \<open>
  Every sub-model clamps its two risks to the unit interval, so their weighted sum lies in
  the unit interval and the clamp of the ensemble leaves it as it is.
\<close>

lemma sub_model_risks_in_unit:
  "0 \<le> droughtRisk (LinearRegressionModel_predict l fs)
   \<and> droughtRisk (LinearRegressionModel_predict l fs) \<le> 1
   \<and> 0 \<le> floodRisk (LinearRegressionModel_predict l fs)
   \<and> floodRisk (LinearRegressionModel_predict l fs) \<le> 1
   \<and> 0 \<le> droughtRisk (NeuralNetworkModel_predict n fs)
   \<and> droughtRisk (NeuralNetworkModel_predict n fs) \<le> 1
   \<and> 0 \<le> floodRisk (NeuralNetworkModel_predict n fs)
   \<and> floodRisk (NeuralNetworkModel_predict n fs) \<le> 1
   \<and> 0 \<le> droughtRisk (RandomForestModel_predict T fs)
   \<and> droughtRisk (RandomForestModel_predict T fs) \<le> 1
   \<and> 0 \<le> floodRisk (RandomForestModel_predict T fs)
   \<and> floodRisk (RandomForestModel_predict T fs) \<le> 1"
  by (simp add: LinearRegressionModel_predict_def NeuralNetworkModel_predict_def
      RandomForestModel_predict_def Let_def clamp01_def)

lemma weighted_sum_in_unit:
  fixes a b c :: real
  assumes "0 \<le> a" "a \<le> 1" "0 \<le> b" "b \<le> 1" "0 \<le> c" "c \<le> 1"
  shows "clamp01 (a * weight_linear + b * weight_neural + c * weight_randomForest)
           = 0.2 * a + 0.5 * b + 0.3 * c"
proof -
  have "0 \<le> 0.2 * a + 0.5 * b + 0.3 * c" using assms by simp
  moreover have "0.2 * a + 0.5 * b + 0.3 * c \<le> 1" using assms by (simp add: field_simps)
  ultimately have "clamp01 (0.2 * a + 0.5 * b + 0.3 * c) = 0.2 * a + 0.5 * b + 0.3 * c"
    by (rule clamp01_id)
  then show ?thesis
    by (simp add: weight_linear_def weight_neural_def weight_randomForest_def mult.commute)
qed

text \<open>
  C8. The basic ensemble blends its sub-models with the weights 0.2 (linear), 0.5 (neural)
  and 0.3 (random forest), which add up to 1: each risk of the ensemble is that weighted sum
  of the three sub-model risks, and its confidence is the weighted sum of their confidences
  capped at 0.95. So when the three sub-models agree on the value of a risk, the ensemble
  returns that value for the risk.
\<close>

theorem EnsembleModel_weighted_blend:
  "weight_linear = 0.2 \<and> weight_neural = 0.5 \<and> weight_randomForest = 0.3
   \<and> weight_linear + weight_neural + weight_randomForest = 1
   \<and> droughtRisk (EnsembleModel_predict m fs)
       = 0.2 * droughtRisk (LinearRegressionModel_predict (linearModel m) fs)
         + 0.5 * droughtRisk (NeuralNetworkModel_predict (neuralModel m) fs)
         + 0.3 * droughtRisk (RandomForestModel_predict (randomForestModel m) fs)
   \<and> floodRisk (EnsembleModel_predict m fs)
       = 0.2 * floodRisk (LinearRegressionModel_predict (linearModel m) fs)
         + 0.5 * floodRisk (NeuralNetworkModel_predict (neuralModel m) fs)
         + 0.3 * floodRisk (RandomForestModel_predict (randomForestModel m) fs)
   \<and> confidence (EnsembleModel_predict m fs)
       = min 0.95
           (0.2 * confidence (LinearRegressionModel_predict (linearModel m) fs)
            + 0.5 * confidence (NeuralNetworkModel_predict (neuralModel m) fs)
            + 0.3 * confidence (RandomForestModel_predict (randomForestModel m) fs))
   \<and> (droughtRisk (LinearRegressionModel_predict (linearModel m) fs) = v
        \<and> droughtRisk (NeuralNetworkModel_predict (neuralModel m) fs) = v
        \<and> droughtRisk (RandomForestModel_predict (randomForestModel m) fs) = v
      \<longrightarrow> droughtRisk (EnsembleModel_predict m fs) = v)
   \<and> (floodRisk (LinearRegressionModel_predict (linearModel m) fs) = w
        \<and> floodRisk (NeuralNetworkModel_predict (neuralModel m) fs) = w
        \<and> floodRisk (RandomForestModel_predict (randomForestModel m) fs) = w
      \<longrightarrow> floodRisk (EnsembleModel_predict m fs) = w)"
proof -
  let ?l = "LinearRegressionModel_predict (linearModel m) fs"
  let ?n = "NeuralNetworkModel_predict (neuralModel m) fs"
  let ?r = "RandomForestModel_predict (randomForestModel m) fs"
  note u = sub_model_risks_in_unit [of "linearModel m" fs "neuralModel m" "randomForestModel m"]
  have w: "weight_linear = 0.2 \<and> weight_neural = 0.5 \<and> weight_randomForest = 0.3"
    by (simp add: weight_linear_def weight_neural_def weight_randomForest_def)
  have s: "weight_linear + weight_neural + weight_randomForest = 1"
    by (simp add: weight_linear_def weight_neural_def weight_randomForest_def)
  have "droughtRisk (EnsembleModel_predict m fs)
      = clamp01 (droughtRisk ?l * weight_linear + droughtRisk ?n * weight_neural
                 + droughtRisk ?r * weight_randomForest)"
    by (simp add: EnsembleModel_predict_def EnsembleModel_blend_def Let_def)
  also have "\<dots> = 0.2 * droughtRisk ?l + 0.5 * droughtRisk ?n + 0.3 * droughtRisk ?r"
    using u by (intro weighted_sum_in_unit) simp_all
  finally have d: "droughtRisk (EnsembleModel_predict m fs)
      = 0.2 * droughtRisk ?l + 0.5 * droughtRisk ?n + 0.3 * droughtRisk ?r" .
  have "floodRisk (EnsembleModel_predict m fs)
      = clamp01 (floodRisk ?l * weight_linear + floodRisk ?n * weight_neural
                 + floodRisk ?r * weight_randomForest)"
    by (simp add: EnsembleModel_predict_def EnsembleModel_blend_def Let_def)
  also have "\<dots> = 0.2 * floodRisk ?l + 0.5 * floodRisk ?n + 0.3 * floodRisk ?r"
    using u by (intro weighted_sum_in_unit) simp_all
  finally have f: "floodRisk (EnsembleModel_predict m fs)
      = 0.2 * floodRisk ?l + 0.5 * floodRisk ?n + 0.3 * floodRisk ?r" .
  have c: "confidence (EnsembleModel_predict m fs)
       = min 0.95 (0.2 * confidence ?l + 0.5 * confidence ?n + 0.3 * confidence ?r)"
    by (simp add: EnsembleModel_predict_def EnsembleModel_blend_def Let_def
        weight_linear_def weight_neural_def weight_randomForest_def mult.commute)
  have dv: "droughtRisk (EnsembleModel_predict m fs) = v"
    if "droughtRisk ?l = v \<and> droughtRisk ?n = v \<and> droughtRisk ?r = v"
    using that by (simp add: d algebra_simps)
  have fw: "floodRisk (EnsembleModel_predict m fs) = w"
    if "floodRisk ?l = w \<and> floodRisk ?n = w \<and> floodRisk ?r = w"
    using that by (simp add: f algebra_simps)
  show ?thesis
    by (intro conjI impI) (simp_all only: w s d f c dv fw)
qed


theorem EnsembleModel_weighted_blend_witness:
  "droughtRisk (LinearRegressionModel_predict (linearModel agreeing_parts)
      [0.5, 0.5, 0.5, 0.5, 0.5]) = 0.4
   \<and> droughtRisk (NeuralNetworkModel_predict (neuralModel agreeing_parts)
      [0.5, 0.5, 0.5, 0.5, 0.5]) = 0.4
   \<and> droughtRisk (RandomForestModel_predict (randomForestModel agreeing_parts)
      [0.5, 0.5, 0.5, 0.5, 0.5]) = 0.4
   \<and> droughtRisk (EnsembleModel_predict agreeing_parts [0.5, 0.5, 0.5, 0.5, 0.5]) = 0.4
   \<and> floodRisk (LinearRegressionModel_predict (linearModel agreeing_parts)
      [0.5, 0.5, 0.5, 0.5, 0.5]) = 0.7
   \<and> floodRisk (NeuralNetworkModel_predict (neuralModel agreeing_parts)
      [0.5, 0.5, 0.5, 0.5, 0.5]) = 0.7
   \<and> floodRisk (RandomForestModel_predict (randomForestModel agreeing_parts)
      [0.5, 0.5, 0.5, 0.5, 0.5]) = 0.7
   \<and> floodRisk (EnsembleModel_predict agreeing_parts [0.5, 0.5, 0.5, 0.5, 0.5]) = 0.7
   \<and> droughtRisk (EnsembleModel_predict differing_parts [0.5, 0.5, 0.5, 0.5, 0.5]) = 0.8
   \<and> floodRisk (EnsembleModel_predict differing_parts [0.5, 0.5, 0.5, 0.5, 0.5]) = 0.2"
proof -
  let ?fs = "[0.5, 0.5, 0.5, 0.5, 0.5] :: real list"
  have d: "droughtRisk (LinearRegressionModel_predict (linearModel agreeing_parts) ?fs) = 0.4
   \<and> droughtRisk (NeuralNetworkModel_predict (neuralModel agreeing_parts) ?fs) = 0.4
   \<and> droughtRisk (RandomForestModel_predict (randomForestModel agreeing_parts) ?fs) = 0.4"
    by (simp add: agreeing_parts_def LinearRegressionModel_predict_def
        NeuralNetworkModel_predict_def RandomForestModel_predict_def clamp01_def
        reduce_sum_def Let_def)
  have f: "floodRisk (LinearRegressionModel_predict (linearModel agreeing_parts) ?fs) = 0.7
   \<and> floodRisk (NeuralNetworkModel_predict (neuralModel agreeing_parts) ?fs) = 0.7
   \<and> floodRisk (RandomForestModel_predict (randomForestModel agreeing_parts) ?fs) = 0.7"
    by (simp add: agreeing_parts_def LinearRegressionModel_predict_def
        NeuralNetworkModel_predict_def RandomForestModel_predict_def clamp01_def
        reduce_sum_def Let_def)
  note t = EnsembleModel_weighted_blend [of agreeing_parts ?fs "0.4" "0.7"]
  from t have "droughtRisk (LinearRegressionModel_predict (linearModel agreeing_parts) ?fs) = 0.4
        \<and> droughtRisk (NeuralNetworkModel_predict (neuralModel agreeing_parts) ?fs) = 0.4
        \<and> droughtRisk (RandomForestModel_predict (randomForestModel agreeing_parts) ?fs) = 0.4
      \<longrightarrow> droughtRisk (EnsembleModel_predict agreeing_parts ?fs) = 0.4"
    by (elim conjE)
  with d have d': "droughtRisk (EnsembleModel_predict agreeing_parts ?fs) = 0.4"
    by (rule rev_mp)
  from t have "floodRisk (LinearRegressionModel_predict (linearModel agreeing_parts) ?fs) = 0.7
        \<and> floodRisk (NeuralNetworkModel_predict (neuralModel agreeing_parts) ?fs) = 0.7
        \<and> floodRisk (RandomForestModel_predict (randomForestModel agreeing_parts) ?fs) = 0.7
      \<longrightarrow> floodRisk (EnsembleModel_predict agreeing_parts ?fs) = 0.7"
    by (elim conjE)
  with f have f': "floodRisk (EnsembleModel_predict agreeing_parts ?fs) = 0.7"
    by (rule rev_mp)
  note b = EnsembleModel_weighted_blend [of differing_parts ?fs "0" "0"]
  have parts: "droughtRisk (LinearRegressionModel_predict (linearModel differing_parts) ?fs) = 0"
    "droughtRisk (NeuralNetworkModel_predict (neuralModel differing_parts) ?fs) = 1"
    "droughtRisk (RandomForestModel_predict (randomForestModel differing_parts) ?fs) = 1"
    "floodRisk (LinearRegressionModel_predict (linearModel differing_parts) ?fs) = 1"
    "floodRisk (NeuralNetworkModel_predict (neuralModel differing_parts) ?fs) = 0"
    "floodRisk (RandomForestModel_predict (randomForestModel differing_parts) ?fs) = 0"
    by (simp_all add: differing_parts_def LinearRegressionModel_predict_def
        NeuralNetworkModel_predict_def RandomForestModel_predict_def clamp01_def
        reduce_sum_def Let_def)
  from b have "droughtRisk (EnsembleModel_predict differing_parts ?fs)
       = 0.2 * droughtRisk (LinearRegressionModel_predict (linearModel differing_parts) ?fs)
         + 0.5 * droughtRisk (NeuralNetworkModel_predict (neuralModel differing_parts) ?fs)
         + 0.3 * droughtRisk (RandomForestModel_predict (randomForestModel differing_parts) ?fs)"
    by (elim conjE)
  then have bd: "droughtRisk (EnsembleModel_predict differing_parts ?fs) = 0.8"
    unfolding parts by simp
  from b have "floodRisk (EnsembleModel_predict differing_parts ?fs)
       = 0.2 * floodRisk (LinearRegressionModel_predict (linearModel differing_parts) ?fs)
         + 0.5 * floodRisk (NeuralNetworkModel_predict (neuralModel differing_parts) ?fs)
         + 0.3 * floodRisk (RandomForestModel_predict (randomForestModel differing_parts) ?fs)"
    by (elim conjE)
  then have bf: "floodRisk (EnsembleModel_predict differing_parts ?fs) = 0.2"
    unfolding parts by simp
  from d f d' f' bd bf show ?thesis by (simp only: simp_thms)
qed

section \<open>The frame of the geographic adjustment\<close>

lemma length_createTemporalFeatures:
  "length (createTemporalFeatures a b c d e) = 25"
  by (simp add: createTemporalFeatures_def)

lemma aggregate_sliced: "sliced (aggregateDataWithTimeSeries P a b c d e)"
  by (simp add: sliced_def aggregateDataWithTimeSeries_def Let_def length_createTemporalFeatures)

lemma length_update_entry [simp]: "length (update_entry i g a) = length a"
  by (simp add: update_entry_def)

lemma length_store_entry [simp]: "length (store_entry i c a) = length a"
  by (simp add: store_entry_def)

lemma length_adjust_basic_array: "length (adjust_basic_array lat lon a) = length a"
  by (simp add: adjust_basic_array_def Let_def desert_adjust_def polar_adjust_def
      coastal_adjust_def tropical_adjust_def mountainous_adjust_def)

lemma take_drop_step: "drop i xs = take k (drop i xs) @ drop (i + k) xs"
  by (metis append_take_drop_id drop_drop add.commute)

lemma sliced_allFeatures:
  assumes "sliced f"
  shows "allFeatures f = basicFeatures f @ temporalFeatures f @ volatilityFeatures f
           @ interactionFeatures f @ seasonalFeatures f @ extremeFeatures f"
proof -
  let ?xs = "allFeatures f"
  have len: "length ?xs = 25" using assms by (simp add: sliced_def)
  have e6: "drop 22 ?xs = slice 22 25 ?xs" using len by (simp add: slice_def)
  have e5: "drop 19 ?xs = slice 19 22 ?xs @ drop 22 ?xs"
    using take_drop_step [of 19 ?xs 3] by (simp add: slice_def)
  have e4: "drop 15 ?xs = slice 15 19 ?xs @ drop 19 ?xs"
    using take_drop_step [of 15 ?xs 4] by (simp add: slice_def)
  have e3: "drop 10 ?xs = slice 10 15 ?xs @ drop 15 ?xs"
    using take_drop_step [of 10 ?xs 5] by (simp add: slice_def)
  have e2: "drop 5 ?xs = slice 5 10 ?xs @ drop 10 ?xs"
    using take_drop_step [of 5 ?xs 5] by (simp add: slice_def)
  have e1: "?xs = slice 0 5 ?xs @ drop 5 ?xs"
    by (simp add: slice_def)
  have "?xs = slice 0 5 ?xs @ slice 5 10 ?xs @ slice 10 15 ?xs @ slice 15 19 ?xs
              @ slice 19 22 ?xs @ slice 22 25 ?xs"
    using e1 e2 e3 e4 e5 e6 by metis
  then show ?thesis using assms by (simp add: sliced_def)
qed

text \<open>
  C10. On a 25-slot feature vector in the shape the aggregation produces, and for every
  pair of coordinates, the enhanced geographic adjustment returns a 25-slot vector whose
  slots 5 to 24 are those of its argument: the trend, volatility, interaction, seasonal
  and extreme groups are unchanged, and only the five level slots can differ.
\<close>

theorem adjustForGeographicContextEnhanced_frame:
  assumes "sliced f"
  shows "length (allFeatures (adjustForGeographicContextEnhanced f lat lon)) = 25
    \<and> (\<forall>i. 5 \<le> i \<and> i < 25 \<longrightarrow>
          allFeatures (adjustForGeographicContextEnhanced f lat lon) ! i = allFeatures f ! i)
    \<and> temporalFeatures (adjustForGeographicContextEnhanced f lat lon) = temporalFeatures f
    \<and> volatilityFeatures (adjustForGeographicContextEnhanced f lat lon) = volatilityFeatures f
    \<and> interactionFeatures (adjustForGeographicContextEnhanced f lat lon) = interactionFeatures f
    \<and> seasonalFeatures (adjustForGeographicContextEnhanced f lat lon) = seasonalFeatures f
    \<and> extremeFeatures (adjustForGeographicContextEnhanced f lat lon) = extremeFeatures f"
proof -
  let ?rest = "temporalFeatures f @ volatilityFeatures f @ interactionFeatures f
                 @ seasonalFeatures f @ extremeFeatures f"
  let ?adj = "adjust_basic_array lat lon (basicFeatures f)"
  have inp: "allFeatures f = basicFeatures f @ ?rest"
    using assms by (rule sliced_allFeatures)
  have len25: "length (allFeatures f) = 25" using assms by (simp add: sliced_def)
  have lenb: "length (basicFeatures f) = 5" using assms by (simp add: sliced_def slice_def)
  have out: "allFeatures (adjustForGeographicContextEnhanced f lat lon) = ?adj @ ?rest"
    by (simp add: adjustForGeographicContextEnhanced_def Let_def)
  have lena: "length ?adj = 5" by (simp add: length_adjust_basic_array lenb)
  have "length (allFeatures f) = length (basicFeatures f) + length ?rest"
    by (subst inp) (simp only: length_append)
  with len25 lenb have lenr: "length ?rest = 20" by linarith
  have l: "length (allFeatures (adjustForGeographicContextEnhanced f lat lon)) = 25"
    by (subst out, subst length_append, subst lena, subst lenr) simp
  have n: "\<forall>i. 5 \<le> i \<and> i < 25 \<longrightarrow>
          allFeatures (adjustForGeographicContextEnhanced f lat lon) ! i = allFeatures f ! i"
  proof (intro allI impI)
    fix i :: nat assume "5 \<le> i \<and> i < 25"
    then have "\<not> i < 5" by simp
    then have "(?adj @ ?rest) ! i = ?rest ! (i - 5)" "(basicFeatures f @ ?rest) ! i = ?rest ! (i - 5)"
      using lena lenb by (simp_all only: nth_append if_False)
    then show "allFeatures (adjustForGeographicContextEnhanced f lat lon) ! i = allFeatures f ! i"
      using inp out by simp
  qed
  have g: "temporalFeatures (adjustForGeographicContextEnhanced f lat lon) = temporalFeatures f"
    "volatilityFeatures (adjustForGeographicContextEnhanced f lat lon) = volatilityFeatures f"
    "interactionFeatures (adjustForGeographicContextEnhanced f lat lon) = interactionFeatures f"
    "seasonalFeatures (adjustForGeographicContextEnhanced f lat lon) = seasonalFeatures f"
    "extremeFeatures (adjustForGeographicContextEnhanced f lat lon) = extremeFeatures f"
    by (simp_all add: adjustForGeographicContextEnhanced_def Let_def)
  from l n g show ?thesis by blast
qed

theorem adjustForGeographicContextEnhanced_frame_witness:
  "sliced example_features \<and> (5::nat) \<le> 7 \<and> (7::nat) < 25
   \<and> isDesertRegion 20 10
   \<and> allFeatures (adjustForGeographicContextEnhanced example_features 20 10) ! 7
       = allFeatures example_features ! 7
   \<and> allFeatures (adjustForGeographicContextEnhanced example_features 20 10) ! 7 = 8
   \<and> temporalFeatures (adjustForGeographicContextEnhanced example_features 20 10)
       = [6, 7, 8, 9, 10]"
proof -
  have s: "sliced example_features"
    by (simp add: sliced_def example_features_def slice_def)
  have d: "isDesertRegion 20 10" by (simp add: isDesertRegion_def)
  note t = adjustForGeographicContextEnhanced_frame [OF s, of 20 10]
  from t have a: "\<forall>i. 5 \<le> i \<and> i < 25 \<longrightarrow>
      allFeatures (adjustForGeographicContextEnhanced example_features 20 10) ! i
        = allFeatures example_features ! i"
    by (elim conjE)
  have "(5::nat) \<le> 7 \<and> (7::nat) < 25" by simp
  with a have n: "allFeatures (adjustForGeographicContextEnhanced example_features 20 10) ! 7
        = allFeatures example_features ! 7" by blast
  have v: "allFeatures example_features ! 7 = 8" by (simp add: example_features_def)
  from t have "temporalFeatures (adjustForGeographicContextEnhanced example_features 20 10)
       = temporalFeatures example_features" by (elim conjE)
  then have g: "temporalFeatures (adjustForGeographicContextEnhanced example_features 20 10)
       = [6, 7, 8, 9, 10]" by (simp add: example_features_def)
  from s d n v g show ?thesis by simp
qed

section \<open>Desert coordinates on the enhanced path\<close>

lemma basicFeatures_aggregate:
  "basicFeatures (aggregateDataWithTimeSeries P a b c d e) =
     [calculateMean (map reading (cleanSamples (cleanAndValidateData P a))),
      calculateMean (map reading (cleanSamples (cleanAndValidateData P b))),
      calculateMean (map reading (cleanSamples (cleanAndValidateData P c))),
      calculateMean (map reading (cleanSamples (cleanAndValidateData P d))),
      calculateMean (map reading (cleanSamples (cleanAndValidateData P e)))]"
  by (simp add: aggregateDataWithTimeSeries_def Let_def createTemporalFeatures_def slice_def)

lemma desert_not_polar: "isDesertRegion lat lon \<Longrightarrow> \<not> isPolarRegion lat lon"
  by (auto simp: isDesertRegion_def isPolarRegion_def Let_def)

lemma desert_adjusted:
  assumes "isDesertRegion lat lon"
  shows "adjust_basic_array lat lon [m0, m1, m2, m3, m4] =
     [if isTropicalRegion lat lon then 0.6 else min m0 0.15,
      if isMountainousRegion lat lon then min (max m1 0.25) 0.3 else max m1 0.25,
      if isTropicalRegion lat lon then 0.6 else max m2 0.6,
      if isCoastalRegion lat lon then 0.05 else 0,
      if isMountainousRegion lat lon then 0.02 else 0]"
  using assms desert_not_polar [OF assms]
  by (simp add: adjust_defs Let_def)

lemma level_slots:
  assumes "basicFeatures F = [a0, a1, a2, a3, a4]"
  shows "take 5 (features_en (normalizeFeaturesEnhanced F)) =
     [normalize_value 0 100 a0, normalize_value (- 50) 60 a1, normalize_value 0 100 a2,
      normalize_value 0 1 a3, normalize_value 0 20 a4]"
proof -
  have g: "normalize_group ([a0, a1, a2, a3, a4],
             [''soilMoisture'', ''temperature'', ''fireIndex'', ''seaLevel'', ''glacierMelting''])
           = [(''soilMoisture'', normalize_value 0 100 a0),
              (''temperature'', normalize_value (- 50) 60 a1),
              (''fireIndex'', normalize_value 0 100 a2),
              (''seaLevel'', normalize_value 0 1 a3),
              (''glacierMelting'', normalize_value 0 20 a4)]"
    by (simp add: normalize_group_def enhancedNormalizationRanges_def)
  show ?thesis
    by (simp add: normalizeFeaturesEnhanced_def featureGroups_def Let_def assms g)
qed

lemma nth_of_take5:
  assumes "take 5 xs = [x0, x1, x2, x3, x4]"
  shows "xs ! 0 = x0 \<and> xs ! 1 = x1 \<and> xs ! 2 = x2 \<and> xs ! 3 = x3 \<and> xs ! 4 = x4"
proof -
  have "take 5 xs ! 0 = xs ! 0" "take 5 xs ! 1 = xs ! 1" "take 5 xs ! 2 = xs ! 2"
    "take 5 xs ! 3 = xs ! 3" "take 5 xs ! 4 = xs ! 4"
    by simp_all
  then show ?thesis unfolding assms by simp
qed

lemma empty_desert_coast:
  "features_en (processDataForEnhancedML P [] [] [] [] [] (- 25) 130) =
     [0, 201 / 440, 3 / 500, 1 / 20, 0, 1 / 2, 1 / 2, 1 / 2, 1 / 2, 1 / 2, 0,
      0, 0, 0, 0, 0, 0, 0, 0, 0, 0, 0, 0, 0, 0]"
  by (simp add: processDataForEnhancedML_def adjustForGeographicContextEnhanced_def
      aggregate_empty region_defs adjust_defs normalize_defs Let_def)

lemma sahara_readings:
  "features_en (processDataForEnhancedML example_platform [reading_at 25 10 50]
        [reading_at 25 10 30] [reading_at 25 10 30] [] [] 25 10) =
     [3 / 2000, 8 / 11, 3 / 10, 0, 0, 1 / 2, 1 / 2, 1 / 2, 1 / 2, 1 / 2, 0,
      0, 0, 0, 0, 1 / 4, 3 / 20, 0, 0, 0, 0, 0, 0, 0, 0]"
  by (simp add: processDataForEnhancedML_def adjustForGeographicContextEnhanced_def
      aggregateDataWithTimeSeries_def clean_defs example_defs stat_defs slice_def
      region_defs adjust_defs normalize_defs Let_def)

text \<open>
  The fire-index slot at a desert point, for every input: the mean of the raw fire readings
  is compared with 0.6 and divided by 100 afterwards (at a point that is also tropical the
  value before the division is 0.6). Whenever the mean is below 60 the slot is below 0.6.
\<close>

lemma desert_fire_slot:
  assumes "isDesertRegion lat lon"
  shows "features_en (processDataForEnhancedML P a b c d e lat lon) ! 2
           = normalize_value 0 100
               (if isTropicalRegion lat lon then 0.6
                else max (calculateMean (map reading (cleanSamples (cleanAndValidateData P c))))
                       0.6)"
proof -
  let ?A = "aggregateDataWithTimeSeries P a b c d e"
  let ?F = "adjustForGeographicContextEnhanced ?A lat lon"
  let ?fs = "features_en (processDataForEnhancedML P a b c d e lat lon)"
  define m0 where "m0 = calculateMean (map reading (cleanSamples (cleanAndValidateData P a)))"
  define m1 where "m1 = calculateMean (map reading (cleanSamples (cleanAndValidateData P b)))"
  define m2 where "m2 = calculateMean (map reading (cleanSamples (cleanAndValidateData P c)))"
  define m3 where "m3 = calculateMean (map reading (cleanSamples (cleanAndValidateData P d)))"
  define m4 where "m4 = calculateMean (map reading (cleanSamples (cleanAndValidateData P e)))"
  have m: "basicFeatures ?A = [m0, m1, m2, m3, m4]"
    by (simp only: basicFeatures_aggregate m0_def m1_def m2_def m3_def m4_def)
  have "basicFeatures ?F = adjust_basic_array lat lon [m0, m1, m2, m3, m4]"
    by (simp add: adjustForGeographicContextEnhanced_def Let_def m)
  then have b: "basicFeatures ?F =
     [if isTropicalRegion lat lon then 0.6 else min m0 0.15,
      if isMountainousRegion lat lon then min (max m1 0.25) 0.3 else max m1 0.25,
      if isTropicalRegion lat lon then 0.6 else max m2 0.6,
      if isCoastalRegion lat lon then 0.05 else 0,
      if isMountainousRegion lat lon then 0.02 else 0]"
    by (simp only: desert_adjusted [OF assms])
  from level_slots [OF b] have "take 5 ?fs =
     [normalize_value 0 100 (if isTropicalRegion lat lon then 0.6 else min m0 0.15),
      normalize_value (- 50) 60
        (if isMountainousRegion lat lon then min (max m1 0.25) 0.3 else max m1 0.25),
      normalize_value 0 100 (if isTropicalRegion lat lon then 0.6 else max m2 0.6),
      normalize_value 0 1 (if isCoastalRegion lat lon then 0.05 else 0),
      normalize_value 0 20 (if isMountainousRegion lat lon then 0.02 else 0)]"
    by (simp only: processDataForEnhancedML_def)
  from nth_of_take5 [OF this]
  have "?fs ! 2 = normalize_value 0 100 (if isTropicalRegion lat lon then 0.6 else max m2 0.6)"
    by (elim conjE)
  then show ?thesis by (simp only: m2_def)
qed

lemma desert_fire_slot_low:
  assumes "isDesertRegion lat lon"
    and "calculateMean (map reading (cleanSamples (cleanAndValidateData P c))) < 60"
  shows "features_en (processDataForEnhancedML P a b c d e lat lon) ! 2 < 0.6"
proof -
  define m where "m = calculateMean (map reading (cleanSamples (cleanAndValidateData P c)))"
  have "m < 60" using assms(2) by (simp only: m_def)
  then have "normalize_value 0 100 (if isTropicalRegion lat lon then 0.6 else max m 0.6) < 0.6"
    by (auto simp: normalize_value_def min_def max_def)
  then show ?thesis by (simp only: desert_fire_slot [OF assms(1)] m_def)
qed

lemma sahara_readings_basic:
  "features_n (processDataForML example_platform [reading_at 25 10 50]
        [reading_at 25 10 30] [reading_at 25 10 30] [] [] 25 10) =
     [3 / 20, 8 / 11, 3 / 5, 0, 0]"
  by (simp add: processDataForML_def normalizeFeatures_def adjustForGeographicContext_def
      aggregateData_def clean_defs example_defs calculateRobustAverage_def reduce_sum_def
      region_defs normalize_value_def Let_def)

text \<open>
  C1. At a desert point the enhanced pipeline should return a fire-index slot of at least
  0.6 on the normalized scale. The code applies the threshold 0.6 to the raw mean and
  divides by the range of 100 afterwards. In the Sahara at (25, 10) with a fire index of 30
  the slot is 0.3, below 0.6; the basic path, whose threshold is 60 on the same raw value,
  returns 0.6 there. At (-25, 130) in the Australian desert with no samples the slot is
  0.006.
\<close>

theorem desert_fire_slot_below_threshold:
  "isDesertRegion 25 10
   \<and> features_en (processDataForEnhancedML example_platform [reading_at 25 10 50]
        [reading_at 25 10 30] [reading_at 25 10 30] [] [] 25 10) ! 2 = 0.3
   \<and> \<not> 0.6 \<le> features_en (processDataForEnhancedML example_platform [reading_at 25 10 50]
        [reading_at 25 10 30] [reading_at 25 10 30] [] [] 25 10) ! 2
   \<and> features_n (processDataForML example_platform [reading_at 25 10 50]
        [reading_at 25 10 30] [reading_at 25 10 30] [] [] 25 10) ! 2 = 0.6
   \<and> isDesertRegion (- 25) 130
   \<and> features_en (processDataForEnhancedML example_platform [] [] [] [] [] (- 25) 130) ! 2
       = 0.006"
  by (simp add: sahara_readings sahara_readings_basic empty_desert_coast isDesertRegion_def)

text \<open>The enhanced pipeline always returns 25 normalized features.\<close>

lemma length_normalize_group:
  assumes "set names \<subseteq> fst ` set enhancedNormalizationRanges"
  shows "length (normalize_group (xs, names)) = min (length xs) (length names)"
  using assms
proof (induction xs arbitrary: names)
  case Nil
  then show ?case by (simp add: normalize_group_def)
next
  case (Cons x xs)
  show ?case
  proof (cases names)
    case Nil
    then show ?thesis by (simp add: normalize_group_def)
  next
    case (Cons n ns)
    with Cons.prems have "n \<in> fst ` set enhancedNormalizationRanges" by simp
    then have "map_of enhancedNormalizationRanges n \<noteq> None"
      by (simp only: map_of_eq_None_iff not_not)
    then obtain lo hi where l: "map_of enhancedNormalizationRanges n = Some (lo, hi)"
      by fastforce
    have "set ns \<subseteq> fst ` set enhancedNormalizationRanges"
      using Cons.prems Cons by simp
    then have "length (normalize_group (xs, ns)) = min (length xs) (length ns)"
      by (rule Cons.IH)
    then show ?thesis
      using l Cons by (simp add: normalize_group_def)
  qed
qed

lemma range_names:
  "fst ` set enhancedNormalizationRanges =
     set (concat (map snd (featureGroups f)))"
  by (simp add: featureGroups_def enhancedNormalizationRanges_def)

lemma length_normalized:
  assumes "length (basicFeatures f) = 5" "length (temporalFeatures f) = 5"
    "length (volatilityFeatures f) = 5" "length (interactionFeatures f) = 4"
    "length (seasonalFeatures f) = 3" "length (extremeFeatures f) = 3"
  shows "length (features_en (normalizeFeaturesEnhanced f)) = 25"
proof -
  have "length (normalize_group g) = min (length (fst g)) (length (snd g))"
    if "g \<in> set (featureGroups f)" for g
  proof -
    from that have "set (snd g) \<subseteq> set (concat (map snd (featureGroups f)))" by auto
    then have "set (snd g) \<subseteq> fst ` set enhancedNormalizationRanges"
      by (simp only: range_names [of f])
    from length_normalize_group [OF this, of "fst g"] show ?thesis by simp
  qed
  then have "map (\<lambda>g. length (normalize_group g)) (featureGroups f)
             = map (\<lambda>g. min (length (fst g)) (length (snd g))) (featureGroups f)"
    by simp
  then have "sum_list (map (\<lambda>g. length (normalize_group g)) (featureGroups f)) = 25"
    using assms by (simp add: featureGroups_def)
  then show ?thesis
    by (simp add: normalizeFeaturesEnhanced_def Let_def length_concat comp_def)
qed

lemma length_pipeline:
  "length (features_en (processDataForEnhancedML P a b c d e lat lon)) = 25"
proof -
  let ?A = "aggregateDataWithTimeSeries P a b c d e"
  let ?F = "adjustForGeographicContextEnhanced ?A lat lon"
  have l: "length (createTemporalFeatures x1 x2 x3 x4 x5) = 25" for x1 x2 x3 x4 x5
    by (simp add: createTemporalFeatures_def)
  have g: "length (basicFeatures ?A) = 5" "length (temporalFeatures ?A) = 5"
    "length (volatilityFeatures ?A) = 5" "length (interactionFeatures ?A) = 4"
    "length (seasonalFeatures ?A) = 3" "length (extremeFeatures ?A) = 3"
    by (simp_all add: aggregateDataWithTimeSeries_def Let_def slice_def l)
  have b: "length (basicFeatures ?F) = 5"
    by (simp add: adjustForGeographicContextEnhanced_def Let_def length_adjust_basic_array g(1))
  have r: "temporalFeatures ?F = temporalFeatures ?A"
    "volatilityFeatures ?F = volatilityFeatures ?A"
    "interactionFeatures ?F = interactionFeatures ?A"
    "seasonalFeatures ?F = seasonalFeatures ?A"
    "extremeFeatures ?F = extremeFeatures ?A"
    by (simp_all add: adjustForGeographicContextEnhanced_def Let_def)
  have "length (features_en (normalizeFeaturesEnhanced ?F)) = 25"
    by (rule length_normalized) (simp_all only: b r g)
  then show ?thesis by (simp only: processDataForEnhancedML_def)
qed

end
